theory Spec2Isabelle
  imports Main
begin

section \<open>JavaScript values used by the checkers\<close>

text \<open>
  Strings are byte lists (the UTF-8 encoding of the JavaScript string). Every separator
  and pattern the code uses is ASCII, and an ASCII byte never occurs inside a multi-byte
  UTF-8 sequence, so splitting and searching on the bytes agrees with the code. White
  space, for \<open>String.prototype.trim\<close> and for \<open>\s\<close> in regular expressions, is tab,
  line feed, vertical tab, form feed, carriage return and space; the white space outside
  ASCII (U+00A0, U+FEFF, U+2028, ...) is not modelled.
\<close>

definition js_whitespace :: "char \<Rightarrow> bool" where
  "js_whitespace c =
     (c = CHR 0x09 \<or> c = CHR 0x0A \<or> c = CHR 0x0B \<or> c = CHR 0x0C \<or> c = CHR 0x0D \<or> c = CHR '' '')"

definition trim :: "string \<Rightarrow> string" where
  "trim s = rev (dropWhile js_whitespace (rev (dropWhile js_whitespace s)))"

text \<open>\<open>s.split(c)\<close> for a one-character separator: never empty, \<open>''.split(c) = ['']\<close>.\<close>

fun split_on :: "char \<Rightarrow> string \<Rightarrow> string list" where
  "split_on c [] = [[]]"
| "split_on c (x # xs) =
     (if x = c then [] # split_on c xs
      else (case split_on c xs of
              [] \<Rightarrow> [[x]]
            | w # ws \<Rightarrow> (x # w) # ws))"

definition startsWith :: "string \<Rightarrow> string \<Rightarrow> bool" where
  "startsWith s p = (take (length p) s = p)"

definition endsWith :: "string \<Rightarrow> string \<Rightarrow> bool" where
  "endsWith s p = (length p \<le> length s \<and> drop (length s - length p) s = p)"

fun str_includes :: "string \<Rightarrow> string \<Rightarrow> bool" where
  "str_includes [] p = (p = [])"
| "str_includes (x # xs) p = (startsWith (x # xs) p \<or> str_includes xs p)"

text \<open>
  A thrown value. \<open>new Error(msg)\<close> has only a message; the error \<open>execa\<close> rejects
  with also carries the captured \<open>stdout\<close>, the interleaved \<open>all\<close> (when asked for)
  and the exit code. \<open>None\<close> is \<open>undefined\<close>.
\<close>

record js_error =
  message :: string
  err_stdout :: "string option"
  err_all :: "string option"
  exitCode :: "int option"

definition new_Error :: "string \<Rightarrow> js_error" where
  "new_Error msg = \<lparr>message = msg, err_stdout = None, err_all = None, exitCode = None\<rparr>"

text \<open>\<open>a || b\<close> on an optional string: \<open>undefined\<close> and \<open>''\<close> are falsy.\<close>

definition truthy :: "string option \<Rightarrow> bool" where
  "truthy v = (case v of None \<Rightarrow> False | Some s \<Rightarrow> s \<noteq> [])"

definition js_or :: "string option \<Rightarrow> string \<Rightarrow> string" where
  "js_or v d = (case v of None \<Rightarrow> d | Some s \<Rightarrow> if s \<noteq> [] then s else d)"

text \<open>The value of \<open>JSON.parse\<close>; an object keeps its members in order.\<close>

datatype json =
    JNull
  | JBool bool
  | JNum int
  | JStr string
  | JArr "json list"
  | JObj "(string \<times> json) list"

section \<open>Message texts\<close>

text \<open>
  The literals of the source that are not ASCII, as their UTF-8 bytes. Each is the text
  the source has at the place that uses it.
\<close>

text \<open>In English: passed.\<close>

definition zh_passed :: string where
  "zh_passed = [CHR 0xE9, CHR 0x80, CHR 0x9A, CHR 0xE8, CHR 0xBF, CHR 0x87]"

text \<open>In English: failed.\<close>

definition zh_failed :: string where
  "zh_failed = [CHR 0xE5, CHR 0xA4, CHR 0xB1, CHR 0xE8, CHR 0xB4, CHR 0xA5]"

text \<open>In English: execution error.\<close>

definition zh_exec_error :: string where
  "zh_exec_error = [CHR 0xE6, CHR 0x89, CHR 0xA7, CHR 0xE8, CHR 0xA1, CHR 0x8C, CHR 0xE9,
     CHR 0x94, CHR 0x99, CHR 0xE8, CHR 0xAF, CHR 0xAF]"

text \<open>In English: disabled.\<close>

definition zh_disabled :: string where
  "zh_disabled = [CHR 0xE5, CHR 0xB7, CHR 0xB2, CHR 0xE7, CHR 0xA6, CHR 0x81, CHR 0xE7,
     CHR 0x94, CHR 0xA8]"

text \<open>In English: files (after a count).\<close>

definition zh_n_files :: string where
  "zh_n_files = '' '' @ [CHR 0xE4, CHR 0xB8, CHR 0xAA, CHR 0xE6, CHR 0x96, CHR 0x87,
     CHR 0xE4, CHR 0xBB, CHR 0xB6]"

text \<open>In English: warnings (after a count).\<close>

definition zh_n_warnings :: string where
  "zh_n_warnings = '' '' @ [CHR 0xE4, CHR 0xB8, CHR 0xAA, CHR 0xE8, CHR 0xAD, CHR 0xA6,
     CHR 0xE5, CHR 0x91, CHR 0x8A]"

text \<open>In English: errors (after a count).\<close>

definition zh_n_errors :: string where
  "zh_n_errors = '' '' @ [CHR 0xE4, CHR 0xB8, CHR 0xAA, CHR 0xE9, CHR 0x94, CHR 0x99,
     CHR 0xE8, CHR 0xAF, CHR 0xAF]"

text \<open>In English: full check.\<close>

definition zh_full_check :: string where
  "zh_full_check = [CHR 0xE5, CHR 0x85, CHR 0xA8, CHR 0xE9, CHR 0x87, CHR 0x8F, CHR 0xE6,
     CHR 0xA3, CHR 0x80, CHR 0xE6, CHR 0x9F, CHR 0xA5]"

text \<open>In English: checked (before a count).\<close>

definition zh_checked :: string where
  "zh_checked = [CHR 0xE6, CHR 0xA3, CHR 0x80, CHR 0xE6, CHR 0x9F, CHR 0xA5, CHR 0xE4,
     CHR 0xBA, CHR 0x86] @ '' ''"

text \<open>In English: coverage.\<close>

definition zh_coverage :: string where
  "zh_coverage = [CHR 0xE8, CHR 0xA6, CHR 0x86, CHR 0xE7, CHR 0x9B, CHR 0x96, CHR 0xE7,
     CHR 0x8E, CHR 0x87]"

text \<open>In English: there are no files to check.\<close>

definition zh_no_files_to_check :: string where
  "zh_no_files_to_check = [CHR 0xE6, CHR 0xB2, CHR 0xA1, CHR 0xE6, CHR 0x9C, CHR 0x89,
     CHR 0xE9, CHR 0x9C, CHR 0x80, CHR 0xE8, CHR 0xA6, CHR 0x81, CHR 0xE6, CHR 0xA3,
     CHR 0x80, CHR 0xE6, CHR 0x9F, CHR 0xA5, CHR 0xE7, CHR 0x9A, CHR 0x84, CHR 0xE6,
     CHR 0x96, CHR 0x87, CHR 0xE4, CHR 0xBB, CHR 0xB6]"

text \<open>In English: ESLint check passed.\<close>

definition out_eslint_passed :: string where
  "out_eslint_passed = ''ESLint'' @ [CHR 0xE6, CHR 0xA3, CHR 0x80, CHR 0xE6, CHR 0x9F,
     CHR 0xA5, CHR 0xE9, CHR 0x80, CHR 0x9A, CHR 0xE8, CHR 0xBF, CHR 0x87]"

text \<open>In English: ESLint check is disabled.\<close>

definition out_eslint_disabled :: string where
  "out_eslint_disabled = ''ESLint'' @ [CHR 0xE6, CHR 0xA3, CHR 0x80, CHR 0xE6, CHR 0x9F,
     CHR 0xA5, CHR 0xE5, CHR 0xB7, CHR 0xB2, CHR 0xE7, CHR 0xA6, CHR 0x81, CHR 0xE7,
     CHR 0x94, CHR 0xA8]"

text \<open>In English: no front-end code changes.\<close>

definition out_no_frontend_changes :: string where
  "out_no_frontend_changes = [CHR 0xE6, CHR 0xB2, CHR 0xA1, CHR 0xE6, CHR 0x9C, CHR 0x89,
     CHR 0xE5, CHR 0x89, CHR 0x8D, CHR 0xE7, CHR 0xAB, CHR 0xAF, CHR 0xE4, CHR 0xBB,
     CHR 0xA3, CHR 0xE7, CHR 0xA0, CHR 0x81, CHR 0xE5, CHR 0x8F, CHR 0x98, CHR 0xE6,
     CHR 0x9B, CHR 0xB4]"

text \<open>In English: the current directory is not a git repository, an incremental check is impossible.\<close>

definition err_not_git_repo :: string where
  "err_not_git_repo = [CHR 0xE5, CHR 0xBD, CHR 0x93, CHR 0xE5, CHR 0x89, CHR 0x8D, CHR 0xE7,
     CHR 0x9B, CHR 0xAE, CHR 0xE5, CHR 0xBD, CHR 0x95, CHR 0xE4, CHR 0xB8, CHR 0x8D,
     CHR 0xE6, CHR 0x98, CHR 0xAF] @ ''git'' @ [CHR 0xE4, CHR 0xBB, CHR 0x93, CHR 0xE5,
     CHR 0xBA, CHR 0x93, CHR 0xEF, CHR 0xBC, CHR 0x8C, CHR 0xE6, CHR 0x97, CHR 0xA0,
     CHR 0xE6, CHR 0xB3, CHR 0x95, CHR 0xE8, CHR 0xBF, CHR 0x9B, CHR 0xE8, CHR 0xA1,
     CHR 0x8C, CHR 0xE5, CHR 0xA2, CHR 0x9E, CHR 0xE9, CHR 0x87, CHR 0x8F, CHR 0xE6,
     CHR 0xA3, CHR 0x80, CHR 0xE6, CHR 0x9F, CHR 0xA5]"

text \<open>In English: tsconfig.json not found, skipping the TypeScript check.\<close>

definition out_no_tsconfig :: string where
  "out_no_tsconfig = [CHR 0xE6, CHR 0x9C, CHR 0xAA, CHR 0xE6, CHR 0x89, CHR 0xBE, CHR 0xE5,
     CHR 0x88, CHR 0xB0] @ '' tsconfig.json '' @ [CHR 0xE6, CHR 0x96, CHR 0x87, CHR 0xE4,
     CHR 0xBB, CHR 0xB6, CHR 0xEF, CHR 0xBC, CHR 0x8C, CHR 0xE8, CHR 0xB7, CHR 0xB3,
     CHR 0xE8, CHR 0xBF, CHR 0x87] @ '' TypeScript '' @ [CHR 0xE6, CHR 0xA3, CHR 0x80,
     CHR 0xE6, CHR 0x9F, CHR 0xA5]"

text \<open>In English: there are no TypeScript files to check.\<close>

definition out_no_ts_files :: string where
  "out_no_ts_files = [CHR 0xE6, CHR 0xB2, CHR 0xA1, CHR 0xE6, CHR 0x9C, CHR 0x89, CHR 0xE9,
     CHR 0x9C, CHR 0x80, CHR 0xE8, CHR 0xA6, CHR 0x81, CHR 0xE6, CHR 0xA3, CHR 0x80,
     CHR 0xE6, CHR 0x9F, CHR 0xA5, CHR 0xE7, CHR 0x9A, CHR 0x84] @ '' TypeScript ''
     @ [CHR 0xE6, CHR 0x96, CHR 0x87, CHR 0xE4, CHR 0xBB, CHR 0xB6]"

text \<open>In English: TypeScript check passed.\<close>

definition out_ts_passed :: string where
  "out_ts_passed = ''TypeScript '' @ [CHR 0xE6, CHR 0xA3, CHR 0x80, CHR 0xE6, CHR 0x9F,
     CHR 0xA5, CHR 0xE9, CHR 0x80, CHR 0x9A, CHR 0xE8, CHR 0xBF, CHR 0x87]"

text \<open>In English: TypeScript coverage check is disabled.\<close>

definition msg_cov_disabled :: string where
  "msg_cov_disabled = ''TypeScript'' @ [CHR 0xE8, CHR 0xA6, CHR 0x86, CHR 0xE7, CHR 0x9B,
     CHR 0x96, CHR 0xE7, CHR 0x8E, CHR 0x87, CHR 0xE6, CHR 0xA3, CHR 0x80, CHR 0xE6,
     CHR 0x9F, CHR 0xA5, CHR 0xE5, CHR 0xB7, CHR 0xB2, CHR 0xE7, CHR 0xA6, CHR 0x81,
     CHR 0xE7, CHR 0x94, CHR 0xA8]"

text \<open>In English: tsconfig.json not found, the TypeScript coverage check is impossible.\<close>

definition err_cov_no_tsconfig :: string where
  "err_cov_no_tsconfig = [CHR 0xE6, CHR 0x9C, CHR 0xAA, CHR 0xE6, CHR 0x89, CHR 0xBE,
     CHR 0xE5, CHR 0x88, CHR 0xB0] @ '' tsconfig.json '' @ [CHR 0xE6, CHR 0x96, CHR 0x87,
     CHR 0xE4, CHR 0xBB, CHR 0xB6, CHR 0xEF, CHR 0xBC, CHR 0x8C, CHR 0xE6, CHR 0x97,
     CHR 0xA0, CHR 0xE6, CHR 0xB3, CHR 0x95, CHR 0xE8, CHR 0xBF, CHR 0x9B, CHR 0xE8,
     CHR 0xA1, CHR 0x8C] @ ''TypeScript'' @ [CHR 0xE8, CHR 0xA6, CHR 0x86, CHR 0xE7,
     CHR 0x9B, CHR 0x96, CHR 0xE7, CHR 0x8E, CHR 0x87, CHR 0xE6, CHR 0xA3, CHR 0x80,
     CHR 0xE6, CHR 0x9F, CHR 0xA5]"

text \<open>In English: package.json not found.\<close>

definition err_no_package_json :: string where
  "err_no_package_json = [CHR 0xE6, CHR 0x9C, CHR 0xAA, CHR 0xE6, CHR 0x89, CHR 0xBE,
     CHR 0xE5, CHR 0x88, CHR 0xB0] @ '' package.json '' @ [CHR 0xE6, CHR 0x96, CHR 0x87,
     CHR 0xE4, CHR 0xBB, CHR 0xB6]"

text \<open>In English: configuring typeCoverage failed: (before the cause).\<close>

definition err_config_failed :: string where
  "err_config_failed = [CHR 0xE9, CHR 0x85, CHR 0x8D, CHR 0xE7, CHR 0xBD, CHR 0xAE]
     @ '' typeCoverage '' @ [CHR 0xE5, CHR 0xA4, CHR 0xB1, CHR 0xE8, CHR 0xB4, CHR 0xA5]
     @ '': ''"

text \<open>In English: installing the TypeScript coverage dependencies failed: (before the cause).\<close>

definition err_install_failed :: string where
  "err_install_failed = [CHR 0xE5, CHR 0xAE, CHR 0x89, CHR 0xE8, CHR 0xA3, CHR 0x85]
     @ ''TypeScript'' @ [CHR 0xE8, CHR 0xA6, CHR 0x86, CHR 0xE7, CHR 0x9B, CHR 0x96,
     CHR 0xE7, CHR 0x8E, CHR 0x87, CHR 0xE4, CHR 0xBE, CHR 0x9D, CHR 0xE8, CHR 0xB5,
     CHR 0x96, CHR 0xE5, CHR 0xA4, CHR 0xB1, CHR 0xE8, CHR 0xB4, CHR 0xA5] @ '': ''"

text \<open>In English: running the TypeScript coverage check failed: (before the cause).\<close>

definition err_cov_exec_failed :: string where
  "err_cov_exec_failed = ''TypeScript'' @ [CHR 0xE8, CHR 0xA6, CHR 0x86, CHR 0xE7, CHR 0x9B,
     CHR 0x96, CHR 0xE7, CHR 0x8E, CHR 0x87, CHR 0xE6, CHR 0xA3, CHR 0x80, CHR 0xE6,
     CHR 0x9F, CHR 0xA5, CHR 0xE6, CHR 0x89, CHR 0xA7, CHR 0xE8, CHR 0xA1, CHR 0x8C,
     CHR 0xE5, CHR 0xA4, CHR 0xB1, CHR 0xE8, CHR 0xB4, CHR 0xA5] @ '': ''"

text \<open>In English: TypeScript coverage check passed, the result is above (before the threshold).\<close>

definition msg_cov_passed_pre :: string where
  "msg_cov_passed_pre = ''TypeScript'' @ [CHR 0xE8, CHR 0xA6, CHR 0x86, CHR 0xE7, CHR 0x9B,
     CHR 0x96, CHR 0xE7, CHR 0x8E, CHR 0x87, CHR 0xE6, CHR 0xA3, CHR 0x80, CHR 0xE6,
     CHR 0x9F, CHR 0xA5, CHR 0xE9, CHR 0x80, CHR 0x9A, CHR 0xE8, CHR 0xBF, CHR 0x87,
     CHR 0xEF, CHR 0xBC, CHR 0x8C, CHR 0xE6, CHR 0xA3, CHR 0x80, CHR 0xE6, CHR 0xB5,
     CHR 0x8B, CHR 0xE7, CHR 0xBB, CHR 0x93, CHR 0xE6, CHR 0x9E, CHR 0x9C, CHR 0xE5,
     CHR 0xA4, CHR 0xA7, CHR 0xE4, CHR 0xBA, CHR 0x8E]"

text \<open>In English: TypeScript coverage check failed, the result is below (before the threshold).\<close>

definition msg_cov_failed_pre :: string where
  "msg_cov_failed_pre = ''TypeScript'' @ [CHR 0xE8, CHR 0xA6, CHR 0x86, CHR 0xE7, CHR 0x9B,
     CHR 0x96, CHR 0xE7, CHR 0x8E, CHR 0x87, CHR 0xE6, CHR 0xA3, CHR 0x80, CHR 0xE6,
     CHR 0x9F, CHR 0xA5, CHR 0xE5, CHR 0xA4, CHR 0xB1, CHR 0xE8, CHR 0xB4, CHR 0xA5,
     CHR 0xEF, CHR 0xBC, CHR 0x8C, CHR 0xE6, CHR 0xA3, CHR 0x80, CHR 0xE6, CHR 0xB5,
     CHR 0x8B, CHR 0xE7, CHR 0xBB, CHR 0x93, CHR 0xE6, CHR 0x9E, CHR 0x9C, CHR 0xE5,
     CHR 0xB0, CHR 0x8F, CHR 0xE4, CHR 0xBA, CHR 0x8E]"

text \<open>In English: percent. See the output log for details.\<close>

definition msg_cov_post :: string where
  "msg_cov_post = ''%'' @ [CHR 0xE3, CHR 0x80, CHR 0x82, CHR 0xE8, CHR 0xAF, CHR 0xA6,
     CHR 0xE6, CHR 0x83, CHR 0x85, CHR 0xE8, CHR 0xAF, CHR 0xB7, CHR 0xE6, CHR 0x9F,
     CHR 0xA5, CHR 0xE7, CHR 0x9C, CHR 0x8B, CHR 0xE8, CHR 0xBE, CHR 0x93, CHR 0xE5,
     CHR 0x87, CHR 0xBA, CHR 0xE6, CHR 0x97, CHR 0xA5, CHR 0xE5, CHR 0xBF, CHR 0x97]"

section \<open>The platform: git, child processes, the file system\<close>

text \<open>
  The external collaborators are a record of operations over a world state \<open>'w\<close>. An
  operation that can change the world returns the new world with its result; a pure read
  returns the result only. \<open>Inl\<close> is a thrown error (a rejected promise).

  \<^item> \<open>simpleGit dir\<close>: creating the git handle (it throws when \<open>dir\<close> is not a directory);
  \<^item> \<open>git_fetch\<close>, \<open>git_diff\<close>, \<open>git_show\<close>, \<open>git_catFile\<close>, \<open>git_raw\<close>: the methods of
    the handle for \<open>dir\<close>, with their argument lists;
  \<^item> \<open>git_log\<close>: \<open>log(args)\<close>, giving the hash of \<open>log.latest\<close>, \<open>None\<close> when
    \<open>log.latest\<close> is null;
  \<^item> \<open>execa\<close>: running a child process to completion;
  \<^item> \<open>existsSync\<close>, \<open>readFileSync\<close>, \<open>writeFileSync\<close>, \<open>path_join\<close>, \<open>chdir\<close>:
    Node's \<open>fs\<close>, \<open>path\<close> and \<open>process\<close>;
  \<^item> \<open>JSON_parse\<close>, \<open>JSON_stringify\<close>: the JSON built-ins;
  \<^item> \<open>regexp_replace pat rep s\<close>: \<open>s.replace(new RegExp(pat, 'g'), rep)\<close>, which
    throws when \<open>pat\<close> is not a regular expression;
  \<^item> \<open>type_error_message v k\<close>: the message of the \<open>TypeError\<close> the engine throws when
    property \<open>k\<close> of \<open>v\<close> cannot be read or written.

  The log lines (\<open>step.info\<close>, \<open>step.warning\<close>, \<open>step.error\<close>, \<open>step.success\<close>) change
  no result and are left out, but for the lines of the final summary, which \<open>runStep\<close>
  collects in \<open>checkResults\<close>.
\<close>

record exec_call =
  ex_file :: string
  ex_args :: "string list"
  ex_cwd :: string
  ex_shell :: bool
  ex_all :: bool

record exec_ok =
  ok_stdout :: string
  ok_all :: "string option"

record 'w platform =
  simpleGit :: "string \<Rightarrow> 'w \<Rightarrow> js_error + unit"
  git_fetch :: "string \<Rightarrow> 'w \<Rightarrow> (js_error + unit) \<times> 'w"
  git_diff :: "string \<Rightarrow> string list \<Rightarrow> 'w \<Rightarrow> js_error + string"
  git_log :: "string \<Rightarrow> string list \<Rightarrow> 'w \<Rightarrow> js_error + string option"
  git_show :: "string \<Rightarrow> string list \<Rightarrow> 'w \<Rightarrow> js_error + string"
  git_catFile :: "string \<Rightarrow> string list \<Rightarrow> 'w \<Rightarrow> js_error + string"
  git_raw :: "string \<Rightarrow> string list \<Rightarrow> 'w \<Rightarrow> js_error + string"
  execa :: "exec_call \<Rightarrow> 'w \<Rightarrow> (js_error + exec_ok) \<times> 'w"
  existsSync :: "string \<Rightarrow> 'w \<Rightarrow> bool"
  readFileSync :: "string \<Rightarrow> 'w \<Rightarrow> js_error + string"
  writeFileSync :: "string \<Rightarrow> string \<Rightarrow> 'w \<Rightarrow> (js_error + unit) \<times> 'w"
  path_join :: "string \<Rightarrow> string \<Rightarrow> string"
  chdir :: "string \<Rightarrow> 'w \<Rightarrow> (js_error + unit) \<times> 'w"
  JSON_parse :: "string \<Rightarrow> js_error + json"
  JSON_stringify :: "json \<Rightarrow> string"
  regexp_replace :: "string \<Rightarrow> string \<Rightarrow> string \<Rightarrow> js_error + string"
  type_error_message :: "json \<Rightarrow> string \<Rightarrow> string"

section \<open>Change-set resolution (eslint.ts)\<close>

record ESLintConfig =
  ec_enableCheck :: bool
  ec_sourceBranch :: string
  ec_targetBranch :: string
  ec_fullCheckMode :: bool
  ec_workSpace :: string
  ec_projectDir :: string
  ec_checkDirectories :: "string list"
  ec_envBranchDeployMode :: bool
  ec_ciCommitRefName :: "string option"

text \<open>\<open>diff.trim().split('\n').filter(file => file.length > 0)\<close>\<close>

definition diff_files :: "string \<Rightarrow> string list" where
  "diff_files d = filter (\<lambda>f. length f > 0) (split_on (CHR 0x0A) (trim d))"

text \<open>
  \<open>getChangedFiles\<close> of eslint.ts: fetch, then the name-only diff of
  \<open>origin/targetBranch\<close> against \<open>origin/sourceBranch\<close>. Any error gives the empty list.
\<close>

definition getChangedFiles :: "'w platform \<Rightarrow> ESLintConfig \<Rightarrow> 'w \<Rightarrow> string list \<times> 'w" where
  "getChangedFiles pf config w =
     (case simpleGit pf (ec_projectDir config) w of
        Inl e \<Rightarrow> ([], w)
      | Inr u \<Rightarrow>
          (case git_fetch pf (ec_projectDir config) w of
             (Inl e, w1) \<Rightarrow> ([], w1)
           | (Inr u1, w1) \<Rightarrow>
               (case git_diff pf (ec_projectDir config)
                       [''--name-only'', ''origin/'' @ ec_targetBranch config,
                        ''origin/'' @ ec_sourceBranch config] w1 of
                  Inl e \<Rightarrow> ([], w1)
                | Inr d \<Rightarrow> (diff_files d, w1))))"

text \<open>\<open>show.split(' ').filter(p => p.trim())\<close>\<close>

definition parents_of :: "string \<Rightarrow> string list" where
  "parents_of shown = filter (\<lambda>p. trim p \<noteq> []) (split_on (CHR '' '') shown)"

text \<open>
  \<open>getEnvBranchChangedFiles\<close>: the branch-deploy traversal. The inner \<open>try\<close> falls back
  to \<open>getChangedFiles\<close> on any error; the outer one (only \<open>simpleGit\<close> can throw there,
  \<open>getChangedFiles\<close> never does) gives the empty list.
\<close>

definition getEnvBranchChangedFiles ::
  "'w platform \<Rightarrow> ESLintConfig \<Rightarrow> 'w \<Rightarrow> string list \<times> 'w" where
  "getEnvBranchChangedFiles pf config w =
     (let projectDir = ec_projectDir config;
          deployBranch = js_or (ec_ciCommitRefName config) ''develop'';
          masterBranch = js_or (Some (ec_targetBranch config)) ''master'';
          originMasterBranch = ''origin/'' @ masterBranch
      in
      case simpleGit pf projectDir w of
        Inl e \<Rightarrow> ([], w)
      | Inr u \<Rightarrow>
          (case git_log pf projectDir [''--merges'', ''--first-parent'', deployBranch, ''-n'', ''1''] w of
             Inl e \<Rightarrow> getChangedFiles pf config w
           | Inr None \<Rightarrow> getChangedFiles pf config w
           | Inr (Some mergeCommit) \<Rightarrow>
               (case git_show pf projectDir [mergeCommit, ''--pretty=format:%P''] w of
                  Inl e \<Rightarrow> getChangedFiles pf config w
                | Inr shown \<Rightarrow>
                    (let parents = parents_of shown in
                     if length parents < 2 then getChangedFiles pf config w
                     else
                       (let devEnd = parents ! 1 in
                        case git_catFile pf projectDir [''-e'', devEnd] w of
                          Inl e \<Rightarrow> getChangedFiles pf config w
                        | Inr c \<Rightarrow>
                            (case git_raw pf projectDir [''merge-base'', originMasterBranch, devEnd] w of
                               Inl e \<Rightarrow> getChangedFiles pf config w
                             | Inr initialBase \<Rightarrow>
                                 (let baseCommit = trim initialBase in
                                  case git_diff pf projectDir [''--name-only'', baseCommit, devEnd] w of
                                    Inl e \<Rightarrow> getChangedFiles pf config w
                                  | Inr d \<Rightarrow> (diff_files d, w))))))))"

section \<open>Change-set resolution (typescript.ts)\<close>

record TypeScriptConfig =
  tc_projectDir :: string
  tc_files :: "string list"
  tc_fullCheck :: bool
  tc_checkDirectories :: "string list"
  tc_sourceBranch :: string
  tc_targetBranch :: string

text \<open>
  \<open>getChangedFiles\<close> of typescript.ts: as in eslint.ts, but an empty source branch
  diffs against \<open>HEAD\<close>.
\<close>

definition ts_getChangedFiles ::
  "'w platform \<Rightarrow> TypeScriptConfig \<Rightarrow> 'w \<Rightarrow> string list \<times> 'w" where
  "ts_getChangedFiles pf config w =
     (case simpleGit pf (tc_projectDir config) w of
        Inl e \<Rightarrow> ([], w)
      | Inr u \<Rightarrow>
          (case git_fetch pf (tc_projectDir config) w of
             (Inl e, w1) \<Rightarrow> ([], w1)
           | (Inr u1, w1) \<Rightarrow>
               (case (if tc_sourceBranch config \<noteq> []
                      then git_diff pf (tc_projectDir config)
                             [''--name-only'', ''origin/'' @ tc_targetBranch config,
                              ''origin/'' @ tc_sourceBranch config] w1
                      else git_diff pf (tc_projectDir config)
                             [''--name-only'', ''origin/'' @ tc_targetBranch config, ''HEAD''] w1) of
                  Inl e \<Rightarrow> ([], w1)
                | Inr d \<Rightarrow> (diff_files d, w1))))"

section \<open>Scope filtering and the ESLint checker (eslint.ts)\<close>

record ESLintResult =
  er_success :: bool
  er_checkedFiles :: "string list"
  er_errorCount :: nat
  er_warningCount :: nat
  er_output :: string

text \<open>
  The directory test both filters use:
  \<open>checkDirectories.some(dir => file.startsWith(dir.trim() + '/') || file.startsWith(dir.trim() + '\\'))\<close>.
\<close>

definition in_check_directory :: "string list \<Rightarrow> string \<Rightarrow> bool" where
  "in_check_directory checkDirectories file =
     list_ex (\<lambda>dir. let normalizedDir = trim dir in
                startsWith file (normalizedDir @ ''/'') \<or>
                startsWith file (normalizedDir @ [CHR 0x5C]))
       checkDirectories"

definition frontendExtensions :: "string list" where
  "frontendExtensions = [''.js'', ''.ts'', ''.jsx'', ''.tsx'', ''.vue'']"

text \<open>
  \<open>filterFrontendFiles\<close>: three \<open>filter\<close> passes, by extension, by check directory
  and by existence on disk.
\<close>

definition filterFrontendFiles ::
  "'w platform \<Rightarrow> string list \<Rightarrow> string \<Rightarrow> string list \<Rightarrow> 'w \<Rightarrow> string list" where
  "filterFrontendFiles pf files projectDir checkDirectories w =
     filter (\<lambda>file. existsSync pf (path_join pf projectDir file) w)
       (filter (in_check_directory checkDirectories)
          (filter (\<lambda>file. list_ex (\<lambda>ext. endsWith file ext) frontendExtensions) files))"

text \<open>\<open>getFullCheckFiles\<close>: one glob pattern per directory and extension.\<close>

definition getFullCheckFiles :: "string list \<Rightarrow> string list" where
  "getFullCheckFiles checkDirectories =
     concat (map (\<lambda>dir. map (\<lambda>ext. trim dir @ ''/**/'' @ ext)
                          [''*.js'', ''*.ts'', ''*.jsx'', ''*.tsx'', ''*.vue''])
              checkDirectories)"

subsection \<open>The two parsing passes over ESLint's compact output\<close>

text \<open>
  The pieces of the regular expressions. Every repetition is followed by a character it
  cannot match itself, so the longest repetition is the only one that can succeed and no
  backtracking is needed. \<open>\s\<close> is \<open>js_whitespace\<close>, \<open>\d\<close> is an ASCII digit.
\<close>

definition is_digit :: "char \<Rightarrow> bool" where
  "is_digit c = (c \<in> set ''0123456789'')"

definition eat :: "string \<Rightarrow> string \<Rightarrow> string option" where
  "eat lit s = (if startsWith s lit then Some (drop (length lit) s) else None)"

definition eat_ws :: "string \<Rightarrow> string option" where
  "eat_ws s = Some (dropWhile js_whitespace s)"

definition eat_ws1 :: "string \<Rightarrow> string option" where
  "eat_ws1 s =
     (case s of
        [] \<Rightarrow> None
      | c # cs \<Rightarrow> if js_whitespace c then Some (dropWhile js_whitespace cs) else None)"

definition eat_digits1 :: "string \<Rightarrow> string option" where
  "eat_digits1 s =
     (case s of
        [] \<Rightarrow> None
      | c # cs \<Rightarrow> if is_digit c then Some (dropWhile is_digit cs) else None)"

text \<open>
  \<open>\s*line\s+\d+,\s*col\s+\d+,\s*KIND\s*-\<close>, matched at the start of \<open>s\<close> (what
  follows the colon), for \<open>KIND\<close> one of \<open>Error\<close>, \<open>Warning\<close>.
\<close>

definition compact_tail :: "string \<Rightarrow> string \<Rightarrow> string option" where
  "compact_tail kind s =
     Option.bind (Option.bind (Option.bind (Option.bind (Option.bind (Option.bind
     (Option.bind (Option.bind (Option.bind (Option.bind (Option.bind (Option.bind
     (Option.bind (eat_ws s)
       (eat ''line'')) eat_ws1) eat_digits1) (eat '','')) eat_ws)
       (eat ''col'')) eat_ws1) eat_digits1) (eat '','')) eat_ws)
       (eat kind)) eat_ws) (eat ''-'')"

text \<open>\<open>/:\s*line\s+\d+,\s*col\s+\d+,\s*KIND\s*-/.test(line)\<close>: a match at any colon.\<close>

fun compact_test :: "string \<Rightarrow> string \<Rightarrow> bool" where
  "compact_test kind [] = False"
| "compact_test kind (c # cs) =
     ((c = CHR '':'' \<and> compact_tail kind cs \<noteq> None) \<or> compact_test kind cs)"

text \<open>The first pass: one step of \<open>lines.forEach\<close>, on the counters (errors, warnings).\<close>

definition count_compact :: "string \<Rightarrow> nat \<times> nat \<Rightarrow> nat \<times> nat" where
  "count_compact line cnt =
     (case cnt of (errorCount, warningCount) \<Rightarrow>
        if trim line \<noteq> [] then
          (if compact_test ''Error'' line then (errorCount + 1, warningCount)
           else if compact_test ''Warning'' line then (errorCount, warningCount + 1)
           else (errorCount, warningCount))
        else (errorCount, warningCount))"

text \<open>The second pass: both substrings are looked for in every line.\<close>

definition count_substring :: "string \<Rightarrow> nat \<times> nat \<Rightarrow> nat \<times> nat" where
  "count_substring line cnt =
     (case cnt of (errorCount, warningCount) \<Rightarrow>
        (if str_includes line ''Error -'' then errorCount + 1 else errorCount,
         if str_includes line ''Warning -'' then warningCount + 1 else warningCount))"

text \<open>
  The counters after both passes: the second pass runs only when the first left both
  counters at zero.
\<close>

definition eslint_counts :: "string \<Rightarrow> nat \<times> nat" where
  "eslint_counts output =
     (let lines = split_on (CHR 0x0A) output;
          first_pass = fold count_compact lines (0, 0)
      in if fst first_pass = 0 \<and> snd first_pass = 0
         then fold count_substring lines first_pass
         else first_pass)"

text \<open>
  \<open>output.replace(new RegExp(escaped, 'g'), '.')\<close> where \<open>escaped\<close> is \<open>projectDir\<close>
  with every special character of regular expressions escaped: all occurrences of the
  literal are replaced, left to right. The empty pattern matches before every character
  and at the end.
\<close>

function replace_literal :: "string \<Rightarrow> string \<Rightarrow> string \<Rightarrow> string" where
  "replace_literal p r [] = (if p = [] then r else [])"
| "replace_literal p r (x # xs) =
     (if p = [] then r @ x # replace_literal p r xs
      else if startsWith (x # xs) p then r @ replace_literal p r (drop (length p) (x # xs))
      else x # replace_literal p r xs)"
  by pat_completeness auto
termination
  by (relation "measure (\<lambda>(p, r, s). length s)") auto

definition join_with :: "string \<Rightarrow> string list \<Rightarrow> string" where
  "join_with sep xs =
     (case xs of [] \<Rightarrow> [] | y # ys \<Rightarrow> y @ concat (map (\<lambda>z. sep @ z) ys))"

text \<open>\<open>files.map(file => `"${file}"`).join(' ')\<close>\<close>

definition quoted_files :: "string list \<Rightarrow> string" where
  "quoted_files files = join_with '' '' (map (\<lambda>file. [CHR 0x22] @ file @ [CHR 0x22]) files)"

definition shell_call :: "string \<Rightarrow> string \<Rightarrow> exec_call" where
  "shell_call command dir =
     \<lparr>ex_file = command, ex_args = [], ex_cwd = dir, ex_shell = True, ex_all = False\<rparr>"

text \<open>
  \<open>runESLintCheck\<close>. The \<open>catch\<close> block is the parse of a run that exited non-zero; it
  cannot throw itself.
\<close>

definition runESLintCheck ::
  "'w platform \<Rightarrow> string list \<Rightarrow> string \<Rightarrow> bool \<Rightarrow> 'w \<Rightarrow> ESLintResult \<times> 'w" where
  "runESLintCheck pf files projectDir isFullCheck w =
     (if \<not> isFullCheck \<and> length files = 0 then
        (\<lparr>er_success = True, er_checkedFiles = [], er_errorCount = 0, er_warningCount = 0,
          er_output = zh_no_files_to_check\<rparr>, w)
      else
        (let eslintCommand =
               (if isFullCheck then ''npx eslint . --format=compact''
                else ''npx eslint '' @ quoted_files files @ '' --format=compact'')
         in case execa pf (shell_call eslintCommand projectDir) w of
              (Inr result, w1) \<Rightarrow>
                (\<lparr>er_success = True, er_checkedFiles = files, er_errorCount = 0,
                  er_warningCount = 0,
                  er_output = js_or (Some (ok_stdout result)) out_eslint_passed\<rparr>, w1)
            | (Inl error, w1) \<Rightarrow>
                (let output = js_or (err_stdout error) (message error);
                     counts = eslint_counts output;
                     cleanedOutput = replace_literal projectDir ''.'' output
                 in (\<lparr>er_success = (fst counts = 0), er_checkedFiles = files,
                      er_errorCount = fst counts, er_warningCount = snd counts,
                      er_output = cleanedOutput\<rparr>, w1))))"

text \<open>\<open>checkESLintConfig\<close>: only a log line depends on it.\<close>

definition checkESLintConfig :: "'w platform \<Rightarrow> string \<Rightarrow> 'w \<Rightarrow> bool" where
  "checkESLintConfig pf projectDir w =
     list_ex (\<lambda>configFile. existsSync pf (path_join pf projectDir configFile) w)
       [''.eslintrc.js'', ''.eslintrc.json'', ''.eslintrc.yaml'', ''.eslintrc.yml'',
        ''eslint.config.js'']"

text \<open>
  \<open>performESLintCheck\<close>. It throws only when \<open>git rev-parse --git-dir\<close> fails. The
  result of \<open>checkESLintConfig\<close> is not used.
\<close>

definition performESLintCheck ::
  "'w platform \<Rightarrow> ESLintConfig \<Rightarrow> 'w \<Rightarrow> (js_error + ESLintResult) \<times> 'w" where
  "performESLintCheck pf config w =
     (if \<not> ec_enableCheck config then
        (Inr \<lparr>er_success = True, er_checkedFiles = [], er_errorCount = 0, er_warningCount = 0,
              er_output = out_eslint_disabled\<rparr>, w)
      else
        (case execa pf \<lparr>ex_file = ''git'', ex_args = [''rev-parse'', ''--git-dir''],
                         ex_cwd = ec_projectDir config, ex_shell = False, ex_all = False\<rparr> w of
           (Inl error, w1) \<Rightarrow> (Inl (new_Error err_not_git_repo), w1)
         | (Inr ok, w1) \<Rightarrow>
             (if ec_fullCheckMode config then
                (case runESLintCheck pf (getFullCheckFiles (ec_checkDirectories config))
                        (ec_projectDir config) (ec_fullCheckMode config) w1 of
                   (result, w2) \<Rightarrow> (Inr result, w2))
              else
                (case (if ec_envBranchDeployMode config
                       then getEnvBranchChangedFiles pf config w1
                       else getChangedFiles pf config w1) of
                   (changedFiles, w2) \<Rightarrow>
                     (let filesToCheck =
                            filterFrontendFiles pf changedFiles (ec_projectDir config)
                              (ec_checkDirectories config) w2
                      in if length filesToCheck = 0 then
                           (Inr \<lparr>er_success = True, er_checkedFiles = [], er_errorCount = 0,
                                 er_warningCount = 0, er_output = out_no_frontend_changes\<rparr>, w2)
                         else
                           (case runESLintCheck pf filesToCheck (ec_projectDir config)
                                   (ec_fullCheckMode config) w2 of
                              (result, w3) \<Rightarrow> (Inr result, w3)))))))"

section \<open>The TypeScript checker (typescript.ts)\<close>

record TypeScriptResult =
  tr_success :: bool
  tr_errorCount :: nat
  tr_warningCount :: nat
  tr_output :: string
  tr_checkedFiles :: int

definition typeScriptExtensions :: "string list" where
  "typeScriptExtensions = [''.ts'', ''.tsx'', ''.vue'']"

definition excludePatterns :: "string list" where
  "excludePatterns = [''node_modules/'', ''lib/'', ''dist/'', ''.test.ts'', ''.spec.ts'', ''test/'']"

text \<open>The \<open>shouldExclude\<close> of the second filter pass.\<close>

definition shouldExclude :: "string \<Rightarrow> bool" where
  "shouldExclude file =
     list_ex (\<lambda>pattern.
                if endsWith pattern ''/''
                then startsWith file pattern \<or> str_includes file (''/'' @ pattern)
                else str_includes file pattern)
       excludePatterns"

text \<open>
  \<open>filterTypeScriptFiles\<close>: four \<open>filter\<close> passes, by extension, by exclusion pattern,
  by check directory and by existence on disk.
\<close>

definition filterTypeScriptFiles ::
  "'w platform \<Rightarrow> string list \<Rightarrow> string \<Rightarrow> string list \<Rightarrow> 'w \<Rightarrow> string list" where
  "filterTypeScriptFiles pf files projectDir checkDirectories w =
     filter (\<lambda>file. existsSync pf (path_join pf projectDir file) w)
       (filter (in_check_directory checkDirectories)
          (filter (\<lambda>file. \<not> shouldExclude file)
             (filter (\<lambda>file. list_ex (\<lambda>ext. endsWith file ext) typeScriptExtensions) files)))"

subsection \<open>Parsing the compiler's output\<close>

text \<open>
  \<open>parseInt(digits, 10)\<close> on a string of decimal digits. The count is a natural number
  here; JavaScript rounds it to a double above \<open>2^53\<close>, which keeps zero and non-zero
  apart.
\<close>

definition digit_value :: "char \<Rightarrow> nat" where
  "digit_value c = of_char c - 48"

definition nat_of_digits :: "string \<Rightarrow> nat" where
  "nat_of_digits ds = fold (\<lambda>c n. 10 * n + digit_value c) ds 0"

text \<open>
  \<open>Found (\d+) error\<close> matched at the start of \<open>s\<close>: the digits, when it matches.
\<close>

definition found_here :: "string \<Rightarrow> string option" where
  "found_here s =
     (case eat ''Found '' s of
        None \<Rightarrow> None
      | Some r \<Rightarrow>
          (let ds = takeWhile is_digit r in
           if ds \<noteq> [] \<and> startsWith (dropWhile is_digit r) '' error'' then Some ds else None))"

text \<open>\<open>line.match(/Found (\d+) error/)\<close>: the group of the leftmost match.\<close>

fun found_match :: "string \<Rightarrow> string option" where
  "found_match [] = None"
| "found_match (c # cs) =
     (case found_here (c # cs) of
        Some ds \<Rightarrow> Some ds
      | None \<Rightarrow> found_match cs)"

text \<open>One step of the loop of \<open>parseTypeScriptOutput\<close>, on (errorCount, warningCount).\<close>

definition parse_ts_line :: "string \<Rightarrow> nat \<times> nat \<Rightarrow> nat \<times> nat" where
  "parse_ts_line line cnt =
     (case cnt of (errorCount, warningCount) \<Rightarrow>
        if str_includes line '': error TS'' then (errorCount + 1, warningCount)
        else if str_includes line '': warning TS'' then (errorCount, warningCount + 1)
        else (case found_match line of
                Some ds \<Rightarrow> (max errorCount (nat_of_digits ds), warningCount)
              | None \<Rightarrow> (errorCount, warningCount)))"

definition parseTypeScriptOutput :: "string \<Rightarrow> nat \<times> nat" where
  "parseTypeScriptOutput output = fold parse_ts_line (split_on (CHR 0x0A) output) (0, 0)"

text \<open>
  \<open>line.match(/^([^(]+)\(\d+,\d+\):\s*(error|warning)/)\<close>: the first group (the file
  name), when the line matches.
\<close>

definition ts_line_file :: "string \<Rightarrow> string option" where
  "ts_line_file line =
     (let name = takeWhile (\<lambda>c. c \<noteq> CHR ''('') line;
          rest = dropWhile (\<lambda>c. c \<noteq> CHR ''('') line
      in if name = [] then None
         else
           (case Option.bind (Option.bind (Option.bind (Option.bind (Option.bind (Option.bind
                 (Option.bind (eat ''('' rest)
                   eat_digits1) (eat '','')) eat_digits1) (eat '')'')) (eat '':'')) eat_ws)
                   (\<lambda>r. if startsWith r ''error'' \<or> startsWith r ''warning'' then Some r else None) of
              None \<Rightarrow> None
            | Some r \<Rightarrow> Some name))"

text \<open>The size of \<open>fileSet\<close>: the number of different file names in matching lines.\<close>

definition count_error_files :: "string \<Rightarrow> nat" where
  "count_error_files cleanedOutput =
     length (remdups (List.map_filter ts_line_file (split_on (CHR 0x0A) cleanedOutput)))"

text \<open>
  \<open>runTypeScriptCheck\<close>. In the \<open>try\<close> block only \<open>execa\<close> can throw. The \<open>catch\<close>
  block builds a regular expression from \<open>projectDir\<close> as it is, which throws when
  \<open>projectDir\<close> is not one; then the function itself throws.
\<close>

definition runTypeScriptCheck ::
  "'w platform \<Rightarrow> TypeScriptConfig \<Rightarrow> 'w \<Rightarrow> (js_error + TypeScriptResult) \<times> 'w" where
  "runTypeScriptCheck pf config w =
     (let projectDir = tc_projectDir config;
          files = tc_files config;
          fullCheck = tc_fullCheck config;
          checkDirectories = tc_checkDirectories config;
          on_error = (\<lambda>error w'.
            (let output = js_or (err_stdout error) (message error) in
             case regexp_replace pf projectDir ''.'' output of
               Inl thrown \<Rightarrow> (Inl thrown, w')
             | Inr cleanedOutput \<Rightarrow>
                 (let counts = parseTypeScriptOutput cleanedOutput;
                      actualCheckedFiles =
                        (if fullCheck then - 1 else int (count_error_files cleanedOutput))
                  in (Inr \<lparr>tr_success = (fst counts = 0), tr_errorCount = fst counts,
                           tr_warningCount = snd counts, tr_output = cleanedOutput,
                           tr_checkedFiles = actualCheckedFiles\<rparr>, w'))))
      in
      if \<not> existsSync pf (path_join pf projectDir ''tsconfig.json'') w then
        (Inr \<lparr>tr_success = True, tr_errorCount = 0, tr_warningCount = 0,
              tr_output = out_no_tsconfig, tr_checkedFiles = 0\<rparr>, w)
      else if fullCheck then
        (case execa pf (shell_call ''npx tsc --noEmit --skipLibCheck --project tsconfig.json''
                          projectDir) w of
           (Inr result, w1) \<Rightarrow>
             (Inr \<lparr>tr_success = True, tr_errorCount = 0, tr_warningCount = 0,
                   tr_output = out_ts_passed, tr_checkedFiles = - 1\<rparr>, w1)
         | (Inl error, w1) \<Rightarrow> on_error error w1)
      else
        (case (if length files = 0
               then (case ts_getChangedFiles pf config w of
                       (changedFiles, w1) \<Rightarrow>
                         (filterTypeScriptFiles pf changedFiles projectDir checkDirectories w1, w1))
               else (filterTypeScriptFiles pf files projectDir checkDirectories w, w)) of
           (actualFiles, w1) \<Rightarrow>
             if length actualFiles = 0 then
               (Inr \<lparr>tr_success = True, tr_errorCount = 0, tr_warningCount = 0,
                     tr_output = out_no_ts_files, tr_checkedFiles = 0\<rparr>, w1)
             else
               (case execa pf (shell_call (''npx tsc --noEmit --skipLibCheck '' @
                                            quoted_files actualFiles) projectDir) w1 of
                  (Inr result, w2) \<Rightarrow>
                    (Inr \<lparr>tr_success = True, tr_errorCount = 0, tr_warningCount = 0,
                          tr_output = out_ts_passed,
                          tr_checkedFiles = int (length actualFiles)\<rparr>, w2)
                | (Inl error, w2) \<Rightarrow> on_error error w2)))"

text \<open>\<open>performTypeScriptCheck\<close>: builds the configuration, runs the check, logs.\<close>

definition performTypeScriptCheck ::
  "'w platform \<Rightarrow> string \<Rightarrow> string list \<Rightarrow> bool \<Rightarrow> string list \<Rightarrow> string \<Rightarrow> string \<Rightarrow> 'w
     \<Rightarrow> (js_error + TypeScriptResult) \<times> 'w" where
  "performTypeScriptCheck pf projectDir files fullCheck checkDirectories sourceBranch targetBranch w =
     runTypeScriptCheck pf
       \<lparr>tc_projectDir = projectDir, tc_files = files, tc_fullCheck = fullCheck,
        tc_checkDirectories = checkDirectories, tc_sourceBranch = sourceBranch,
        tc_targetBranch = targetBranch\<rparr> w"

section \<open>Package manager and user script (util.ts)\<close>

datatype PackageManager = npm | yarn | pnpm

definition detectPackageManager :: "'w platform \<Rightarrow> string \<Rightarrow> 'w \<Rightarrow> PackageManager" where
  "detectPackageManager pf projectDir w =
     (if existsSync pf (path_join pf projectDir ''pnpm-lock.yaml'') w then pnpm
      else if existsSync pf (path_join pf projectDir ''yarn.lock'') w then yarn
      else npm)"

definition package_manager_name :: "PackageManager \<Rightarrow> string" where
  "package_manager_name pm = (case pm of npm \<Rightarrow> ''npm'' | yarn \<Rightarrow> ''yarn'' | pnpm \<Rightarrow> ''pnpm'')"

definition getInstallCommand :: "PackageManager \<Rightarrow> string list \<Rightarrow> string list" where
  "getInstallCommand packageManager packages =
     (case packageManager of
        pnpm \<Rightarrow> [''pnpm'', ''add'', ''-D''] @ packages
      | yarn \<Rightarrow> [''yarn'', ''add'', ''-D''] @ packages
      | npm \<Rightarrow> [''npm'', ''install'', ''--save-dev''] @ packages)"

text \<open>
  \<open>runUserScript\<close>: nothing to run when the script is undefined, empty or blank;
  otherwise the error of the shell is thrown on.
\<close>

definition runUserScript ::
  "'w platform \<Rightarrow> string \<Rightarrow> string option \<Rightarrow> 'w \<Rightarrow> (js_error + unit) \<times> 'w" where
  "runUserScript pf projectDir userScript w =
     (case userScript of
        None \<Rightarrow> (Inr (), w)
      | Some script \<Rightarrow>
          if script = [] \<or> trim script = [] then (Inr (), w)
          else (case execa pf (shell_call script projectDir) w of
                  (Inr result, w1) \<Rightarrow> (Inr (), w1)
                | (Inl error, w1) \<Rightarrow> (Inl error, w1)))"

section \<open>The TypeScript coverage checker (typescript-coverage.ts)\<close>

text \<open>
  A JavaScript number that came from \<open>parseInt\<close>: an integer, or \<open>NaN\<close> (\<open>None\<close>).
\<close>

type_synonym js_number = "int option"

text \<open>Numbers inside template literals: decimal notation, \<open>NaN\<close> for \<open>NaN\<close>.\<close>

definition decimal_digit :: "nat \<Rightarrow> char" where
  "decimal_digit d = ''0123456789'' ! d"

fun decimal :: "nat \<Rightarrow> string" where
  "decimal n =
     (if 10 \<le> n then decimal (n div 10) @ [decimal_digit (n mod 10)]
      else [decimal_digit n])"

definition int_text :: "int \<Rightarrow> string" where
  "int_text i = (if 0 \<le> i then decimal (nat i) else CHR ''-'' # decimal (nat (- i)))"

definition number_text :: "js_number \<Rightarrow> string" where
  "number_text x = (case x of None \<Rightarrow> ''NaN'' | Some i \<Rightarrow> int_text i)"

record TypeScriptCoverageConfig =
  cc_enableCheck :: bool
  cc_threshold :: js_number
  cc_projectDir :: string
  cc_workSpace :: string

record TypeScriptCoverageResult =
  cr_success :: bool
  cr_threshold :: js_number
  cr_message :: string

subsection \<open>Values of package.json\<close>

text \<open>
  The parsed manifest is a \<open>json\<close> value whose objects have each key once. The code is a
  module, so it runs in strict mode: setting a property on a primitive value throws. A
  property set on an array is not an element, and \<open>JSON.stringify\<close> leaves it out.
  \<open>type_error pf v k\<close> is the \<open>TypeError\<close> for reading or writing property \<open>k\<close> of
  \<open>v\<close>.
\<close>

definition type_error :: "'w platform \<Rightarrow> json \<Rightarrow> string \<Rightarrow> js_error" where
  "type_error pf v k = new_Error (type_error_message pf v k)"

definition js_truthy :: "json option \<Rightarrow> bool" where
  "js_truthy v =
     (case v of
        None \<Rightarrow> False
      | Some JNull \<Rightarrow> False
      | Some (JBool b) \<Rightarrow> b
      | Some (JNum n) \<Rightarrow> n \<noteq> 0
      | Some (JStr s) \<Rightarrow> s \<noteq> []
      | Some (JArr xs) \<Rightarrow> True
      | Some (JObj kvs) \<Rightarrow> True)"

text \<open>\<open>v[k]\<close> for a key that is neither an index nor a built-in property.\<close>

definition get_prop :: "'w platform \<Rightarrow> json \<Rightarrow> string \<Rightarrow> js_error + json option" where
  "get_prop pf v k =
     (case v of
        JNull \<Rightarrow> Inl (type_error pf v k)
      | JObj kvs \<Rightarrow> Inr (map_of kvs k)
      | JBool b \<Rightarrow> Inr None
      | JNum n \<Rightarrow> Inr None
      | JStr s \<Rightarrow> Inr None
      | JArr xs \<Rightarrow> Inr None)"

fun assoc_update :: "string \<Rightarrow> json \<Rightarrow> (string \<times> json) list \<Rightarrow> (string \<times> json) list" where
  "assoc_update k v [] = [(k, v)]"
| "assoc_update k v ((k', v') # ps) =
     (if k' = k then (k, v) # ps else (k', v') # assoc_update k v ps)"

text \<open>\<open>v[k] = x\<close>, as \<open>JSON.stringify\<close> will see \<open>v\<close> afterwards.\<close>

definition set_prop :: "'w platform \<Rightarrow> json \<Rightarrow> string \<Rightarrow> json \<Rightarrow> js_error + json" where
  "set_prop pf v k x =
     (case v of
        JObj kvs \<Rightarrow> Inr (JObj (assoc_update k x kvs))
      | JArr xs \<Rightarrow> Inr (JArr xs)
      | JNull \<Rightarrow> Inl (type_error pf v k)
      | JBool b \<Rightarrow> Inl (type_error pf v k)
      | JNum n \<Rightarrow> Inl (type_error pf v k)
      | JStr s \<Rightarrow> Inl (type_error pf v k))"

text \<open>
  \<open>needInstall\<close> for a parsed manifest:
  \<open>!(packageJson.devDependencies || {})['typescript-coverage-report']\<close>.
\<close>

definition needInstall_of :: "'w platform \<Rightarrow> json \<Rightarrow> js_error + bool" where
  "needInstall_of pf packageJson =
     (case get_prop pf packageJson ''devDependencies'' of
        Inl e \<Rightarrow> Inl e
      | Inr dd \<Rightarrow>
          (let devDependencies =
                 (case dd of Some v \<Rightarrow> if js_truthy dd then v else JObj [] | None \<Rightarrow> JObj [])
           in
           case get_prop pf devDependencies ''typescript-coverage-report'' of
             Inl e \<Rightarrow> Inl e
           | Inr x \<Rightarrow> Inr (\<not> js_truthy x)))"

definition typeCoverage_block :: "js_number \<Rightarrow> json" where
  "typeCoverage_block threshold =
     JObj [(''atLeast'', (case threshold of None \<Rightarrow> JNull | Some i \<Rightarrow> JNum i)),
           (''detail'', JBool True),
           (''strict'', JBool True),
           (''cache'', JBool True),
           (''ignoreFiles'', JArr (map JStr
              [''**/*.test.ts'', ''**/*.test.tsx'', ''**/*.spec.ts'', ''**/*.spec.tsx'',
               ''test/**/*'', ''tests/**/*'', ''__tests__/**/*'', ''**/*.stories.ts'',
               ''**/*.stories.tsx'', ''scripts/**/*'', ''build/**/*'', ''dist/**/*'',
               ''node_modules/**/*'']))]"

text \<open>
  The edits of \<open>createCoverageConfig\<close> on the parsed manifest: the \<open>ts-coverage\<close>
  script, then the \<open>typeCoverage\<close> block. A \<open>NaN\<close> threshold is serialised as \<open>null\<close>.
\<close>

definition edit_manifest :: "'w platform \<Rightarrow> js_number \<Rightarrow> json \<Rightarrow> js_error + json" where
  "edit_manifest pf threshold packageJson =
     (case get_prop pf packageJson ''scripts'' of
        Inl e \<Rightarrow> Inl e
      | Inr s \<Rightarrow>
          (case (if \<not> js_truthy s then set_prop pf packageJson ''scripts'' (JObj [])
                 else Inr packageJson) of
             Inl e \<Rightarrow> Inl e
           | Inr pj1 \<Rightarrow>
               (case pj1 of
                  JObj kvs \<Rightarrow>
                    (case set_prop pf (case map_of kvs ''scripts'' of Some v \<Rightarrow> v | None \<Rightarrow> JObj [])
                            ''ts-coverage'' (JStr ''typescript-coverage-report'') of
                       Inl e \<Rightarrow> Inl e
                     | Inr scripts \<Rightarrow>
                         set_prop pf (JObj (assoc_update ''scripts'' scripts kvs))
                           ''typeCoverage'' (typeCoverage_block threshold))
                | JArr xs \<Rightarrow> Inr (JArr xs)
                | JNull \<Rightarrow> Inl (type_error pf pj1 ''scripts'')
                | JBool b \<Rightarrow> Inl (type_error pf pj1 ''scripts'')
                | JNum n \<Rightarrow> Inl (type_error pf pj1 ''scripts'')
                | JStr t \<Rightarrow> Inl (type_error pf pj1 ''scripts''))))"

text \<open>\<open>installCoverageDependencies\<close>\<close>

definition installCoverageDependencies ::
  "'w platform \<Rightarrow> string \<Rightarrow> 'w \<Rightarrow> (js_error + unit) \<times> 'w" where
  "installCoverageDependencies pf projectDir w =
     (let packageManager = detectPackageManager pf projectDir w;
          installCommand =
            getInstallCommand packageManager [''typescript-coverage-report'', ''semantic-ui-react'']
      in case execa pf \<lparr>ex_file = hd installCommand, ex_args = tl installCommand,
                         ex_cwd = projectDir, ex_shell = False, ex_all = False\<rparr> w of
           (Inr result, w1) \<Rightarrow> (Inr (), w1)
         | (Inl error, w1) \<Rightarrow> (Inl (new_Error (err_install_failed @ message error)), w1))"

text \<open>\<open>createCoverageConfig\<close>\<close>

definition createCoverageConfig ::
  "'w platform \<Rightarrow> string \<Rightarrow> js_number \<Rightarrow> 'w \<Rightarrow> (js_error + unit) \<times> 'w" where
  "createCoverageConfig pf projectDir threshold w =
     (let packageJsonPath = path_join pf projectDir ''package.json'';
          failed = (\<lambda>error. Inl (new_Error (err_config_failed @ message error)))
      in
      if \<not> existsSync pf packageJsonPath w then (Inl (new_Error err_no_package_json), w)
      else
        (case readFileSync pf packageJsonPath w of
           Inl error \<Rightarrow> (failed error, w)
         | Inr content \<Rightarrow>
             (case JSON_parse pf content of
                Inl error \<Rightarrow> (failed error, w)
              | Inr packageJson \<Rightarrow>
                  (case edit_manifest pf threshold packageJson of
                     Inl error \<Rightarrow> (failed error, w)
                   | Inr edited \<Rightarrow>
                       (case writeFileSync pf packageJsonPath (JSON_stringify pf edited) w of
                          (Inl error, w1) \<Rightarrow> (failed error, w1)
                        | (Inr u, w1) \<Rightarrow> (Inr (), w1))))))"

text \<open>The \<open>catch\<close> block of \<open>performTypeScriptCoverageCheck\<close>.\<close>

definition coverage_catch :: "js_number \<Rightarrow> js_error \<Rightarrow> js_error + TypeScriptCoverageResult" where
  "coverage_catch threshold error =
     (if exitCode error = Some 1 \<and> (truthy (err_all error) \<or> truthy (err_stdout error)) then
        Inr \<lparr>cr_success = False, cr_threshold = threshold,
             cr_message = msg_cov_failed_pre @ number_text threshold @ msg_cov_post\<rparr>
      else Inl (new_Error (err_cov_exec_failed @ message error)))"

text \<open>
  \<open>performTypeScriptCoverageCheck\<close>. The missing \<open>tsconfig.json\<close> is thrown before the
  \<open>try\<close> block; every later error goes through the \<open>catch\<close> block.
\<close>

definition performTypeScriptCoverageCheck ::
  "'w platform \<Rightarrow> TypeScriptCoverageConfig \<Rightarrow> 'w
     \<Rightarrow> (js_error + TypeScriptCoverageResult) \<times> 'w" where
  "performTypeScriptCoverageCheck pf config w =
     (let threshold = cc_threshold config;
          projectDir = cc_projectDir config;
          packageJsonPath = path_join pf projectDir ''package.json''
      in
      if \<not> cc_enableCheck config then
        (Inr \<lparr>cr_success = True, cr_threshold = threshold, cr_message = msg_cov_disabled\<rparr>, w)
      else if \<not> existsSync pf (path_join pf projectDir ''tsconfig.json'') w then
        (Inl (new_Error err_cov_no_tsconfig), w)
      else
        (case (if existsSync pf packageJsonPath w
               then (case readFileSync pf packageJsonPath w of
                       Inl error \<Rightarrow> Inl error
                     | Inr content \<Rightarrow>
                         (case JSON_parse pf content of
                            Inl error \<Rightarrow> Inl error
                          | Inr packageJson \<Rightarrow> needInstall_of pf packageJson))
               else Inr True) of
           Inl error \<Rightarrow> (coverage_catch threshold error, w)
         | Inr needInstall \<Rightarrow>
             (case (if needInstall then installCoverageDependencies pf projectDir w
                    else (Inr (), w)) of
                (Inl error, w1) \<Rightarrow> (coverage_catch threshold error, w1)
              | (Inr u, w1) \<Rightarrow>
                  (case createCoverageConfig pf projectDir threshold w1 of
                     (Inl error, w2) \<Rightarrow> (coverage_catch threshold error, w2)
                   | (Inr u2, w2) \<Rightarrow>
                       (let command =
                              (case detectPackageManager pf projectDir w2 of
                                 pnpm \<Rightarrow> [''pnpm'', ''ts-coverage'']
                               | yarn \<Rightarrow> [''yarn'', ''ts-coverage'']
                               | npm \<Rightarrow> [''npm'', ''run'', ''ts-coverage''])
                        in case execa pf \<lparr>ex_file = hd command, ex_args = tl command,
                                           ex_cwd = projectDir, ex_shell = False,
                                           ex_all = True\<rparr> w2 of
                             (Inl error, w3) \<Rightarrow> (coverage_catch threshold error, w3)
                           | (Inr result, w3) \<Rightarrow>
                               (Inr \<lparr>cr_success = True, cr_threshold = threshold,
                                     cr_message = msg_cov_passed_pre @ number_text threshold
                                                  @ msg_cov_post\<rparr>, w3))))))"

section \<open>The orchestrator (index.ts)\<close>

text \<open>
  The parameters \<open>getParams\<close> reads from the environment and \<open>runStep\<close> uses. The fields
  the source declares as \<open>string\<close> are strings, the optional ones are \<open>None\<close> when the
  variable is not set. The numeric pipeline identifiers are not used by \<open>runStep\<close> and
  are left out.
\<close>

record IParams =
  p_workSpace :: string
  p_projectDir :: string
  p_userScript :: "string option"
  p_enableESLintCheck :: "string option"
  p_sourceBranch :: "string option"
  p_targetBranch :: "string option"
  p_fullCheckMode :: "string option"
  p_checkDirectories :: "string option"
  p_enableTypeScriptCheck :: "string option"
  p_fullTypeScriptCheckMode :: "string option"
  p_envBranchDeployMode :: "string option"
  p_ciCommitRefName :: "string option"
  p_gitBranch :: "string option"
  p_enableTypeScriptCoverageReport :: "string option"
  p_typeScriptCoverageThreshold :: "string option"

text \<open>\<open>v === 'true'\<close>\<close>

definition is_true :: "string option \<Rightarrow> bool" where
  "is_true v = (v = Some ''true'')"

text \<open>
  \<open>parseInt(s)\<close> without a radix: leading white space, a sign, then hexadecimal digits
  after \<open>0x\<close> or decimal digits; \<open>NaN\<close> when there is no digit.
\<close>

definition hex_value :: "char \<Rightarrow> nat" where
  "hex_value c =
     (if is_digit c then of_char c - 48
      else if c \<in> set ''abcdef'' then of_char c - 87
      else of_char c - 55)"

definition js_parseInt :: "string \<Rightarrow> js_number" where
  "js_parseInt s =
     (let t = dropWhile js_whitespace s;
          negative = startsWith t ''-'';
          u = (if startsWith t ''-'' \<or> startsWith t ''+'' then drop 1 t else t);
          signed = (\<lambda>n. if negative then - int n else int n)
      in if startsWith u ''0x'' \<or> startsWith u ''0X'' then
           (let ds = takeWhile (\<lambda>c. c \<in> set ''0123456789abcdefABCDEF'') (drop 2 u) in
            if ds = [] then None
            else Some (signed (fold (\<lambda>c n. 16 * n + hex_value c) ds 0)))
         else
           (let ds = takeWhile is_digit u in
            if ds = [] then None else Some (signed (nat_of_digits ds))))"

text \<open>
  \<open>s.split(/[\n\r]+/)\<close>: the pieces between the runs of line breaks.
\<close>

definition is_line_break :: "char \<Rightarrow> bool" where
  "is_line_break c = (c = CHR 0x0A \<or> c = CHR 0x0D)"

function split_line_breaks :: "string \<Rightarrow> string list" where
  "split_line_breaks [] = [[]]"
| "split_line_breaks (x # xs) =
     (if is_line_break x then [] # split_line_breaks (dropWhile is_line_break xs)
      else (case split_line_breaks xs of
              [] \<Rightarrow> [[x]]
            | w # ws \<Rightarrow> (x # w) # ws))"
  by pat_completeness auto
termination
  by (relation "measure length") (auto simp: less_Suc_eq_le length_dropWhile_le)

text \<open>The settings \<open>runStep\<close> derives from the parameters.\<close>

definition resolve_sourceBranch :: "IParams \<Rightarrow> string" where
  "resolve_sourceBranch params =
     (let sourceBranch = js_or (p_sourceBranch params) ''*'';
          sourceBranch1 =
            (if sourceBranch = ''*''
             then js_or (p_ciCommitRefName params) (js_or (p_gitBranch params) [])
             else sourceBranch)
      in if is_true (p_envBranchDeployMode params) then [] else sourceBranch1)"

definition resolve_targetBranch :: "IParams \<Rightarrow> string" where
  "resolve_targetBranch params = js_or (p_targetBranch params) ''master''"

definition resolve_projectDir :: "IParams \<Rightarrow> string" where
  "resolve_projectDir params = js_or (Some (p_projectDir params)) (p_workSpace params)"

definition resolve_checkDirectories :: "IParams \<Rightarrow> string list" where
  "resolve_checkDirectories params =
     filter (\<lambda>dir. length dir > 0)
       (map trim (split_line_breaks (js_or (p_checkDirectories params) ''src'')))"

definition resolve_threshold :: "IParams \<Rightarrow> js_number" where
  "resolve_threshold params = js_parseInt (js_or (p_typeScriptCoverageThreshold params) ''90'')"

definition eslintConfig :: "IParams \<Rightarrow> ESLintConfig" where
  "eslintConfig params =
     \<lparr>ec_enableCheck = is_true (p_enableESLintCheck params),
      ec_sourceBranch = resolve_sourceBranch params,
      ec_targetBranch = resolve_targetBranch params,
      ec_fullCheckMode = is_true (p_fullCheckMode params),
      ec_workSpace = p_workSpace params,
      ec_projectDir = resolve_projectDir params,
      ec_checkDirectories = resolve_checkDirectories params,
      ec_envBranchDeployMode = is_true (p_envBranchDeployMode params),
      ec_ciCommitRefName = p_ciCommitRefName params\<rparr>"

definition coverageConfig :: "IParams \<Rightarrow> TypeScriptCoverageConfig" where
  "coverageConfig params =
     \<lparr>cc_enableCheck = is_true (p_enableTypeScriptCoverageReport params),
      cc_threshold = resolve_threshold params,
      cc_projectDir = resolve_projectDir params,
      cc_workSpace = p_workSpace params\<rparr>"

text \<open>The variables \<open>runStep\<close> collects the results in.\<close>

record run_state =
  checkedFiles :: "string list"
  hasErrors :: bool
  totalErrors :: nat
  totalWarnings :: nat
  checkResults :: "string list"

definition initial_state :: run_state where
  "initial_state =
     \<lparr>checkedFiles = [], hasErrors = False, totalErrors = 0, totalWarnings = 0,
      checkResults = []\<rparr>"

subsection \<open>The lines of the summary\<close>

definition eslint_passed_line :: "ESLintResult \<Rightarrow> string" where
  "eslint_passed_line result =
     ''ESLint: '' @ zh_passed @ '' ('' @ decimal (length (er_checkedFiles result)) @
     zh_n_files @ '', '' @ decimal (er_warningCount result) @ zh_n_warnings @ '')''"

definition eslint_failed_line :: "ESLintResult \<Rightarrow> string" where
  "eslint_failed_line result =
     ''ESLint: '' @ zh_failed @ '' ('' @ decimal (er_errorCount result) @ zh_n_errors @
     '', '' @ decimal (er_warningCount result) @ zh_n_warnings @ '')''"

definition error_line :: "string \<Rightarrow> js_error \<Rightarrow> string" where
  "error_line checker error = checker @ '': '' @ zh_exec_error @ '' ('' @ message error @ '')''"

definition disabled_line :: "string \<Rightarrow> string" where
  "disabled_line checker = checker @ '': '' @ zh_disabled"

definition fileCountMsg :: "TypeScriptResult \<Rightarrow> string" where
  "fileCountMsg result =
     (if tr_checkedFiles result = - 1 then zh_full_check
      else zh_checked @ int_text (tr_checkedFiles result) @ zh_n_files)"

definition ts_passed_line :: "TypeScriptResult \<Rightarrow> string" where
  "ts_passed_line result =
     (if tr_checkedFiles result = 0
      then ''TypeScript: '' @ zh_passed @ '' ('' @ zh_no_files_to_check @ '')''
      else ''TypeScript: '' @ zh_passed @ '' ('' @ fileCountMsg result @ '', '' @
           decimal (tr_warningCount result) @ zh_n_warnings @ '')'')"

definition ts_failed_line :: "TypeScriptResult \<Rightarrow> string" where
  "ts_failed_line result =
     ''TypeScript: '' @ zh_failed @ '' ('' @ decimal (tr_errorCount result) @ zh_n_errors @
     '', '' @ decimal (tr_warningCount result) @ zh_n_warnings @ '', '' @
     fileCountMsg result @ '')''"

definition coverage_name :: string where
  "coverage_name = ''TypeScript'' @ zh_coverage"

subsection \<open>The three checker blocks\<close>

text \<open>The ESLint block: \<open>if (enableESLintCheck) { try ... catch ... } else ...\<close>\<close>

definition eslint_step :: "'w platform \<Rightarrow> IParams \<Rightarrow> run_state \<Rightarrow> 'w \<Rightarrow> run_state \<times> 'w" where
  "eslint_step pf params st w =
     (if is_true (p_enableESLintCheck params) then
        (case performESLintCheck pf (eslintConfig params) w of
           (Inr result, w1) \<Rightarrow>
             (if er_success result then
                (st\<lparr>checkedFiles := er_checkedFiles result,
                    totalWarnings := totalWarnings st + er_warningCount result,
                    checkResults := checkResults st @ [eslint_passed_line result]\<rparr>, w1)
              else
                (st\<lparr>checkedFiles := er_checkedFiles result,
                    hasErrors := True,
                    totalErrors := totalErrors st + er_errorCount result,
                    totalWarnings := totalWarnings st + er_warningCount result,
                    checkResults := checkResults st @ [eslint_failed_line result]\<rparr>, w1))
         | (Inl error, w1) \<Rightarrow>
             (st\<lparr>hasErrors := True,
                 checkResults := checkResults st @ [error_line ''ESLint'' error]\<rparr>, w1))
      else (st\<lparr>checkResults := checkResults st @ [disabled_line ''ESLint'']\<rparr>, w))"

text \<open>The TypeScript block; it is given the files the ESLint block checked.\<close>

definition typescript_step ::
  "'w platform \<Rightarrow> IParams \<Rightarrow> run_state \<Rightarrow> 'w \<Rightarrow> run_state \<times> 'w" where
  "typescript_step pf params st w =
     (if is_true (p_enableTypeScriptCheck params) then
        (case performTypeScriptCheck pf (resolve_projectDir params) (checkedFiles st)
                (is_true (p_fullTypeScriptCheckMode params)) (resolve_checkDirectories params)
                (resolve_sourceBranch params) (resolve_targetBranch params) w of
           (Inr result, w1) \<Rightarrow>
             (if tr_success result then
                (st\<lparr>totalWarnings := totalWarnings st + tr_warningCount result,
                    checkResults := checkResults st @ [ts_passed_line result]\<rparr>, w1)
              else
                (st\<lparr>hasErrors := True,
                    totalErrors := totalErrors st + tr_errorCount result,
                    totalWarnings := totalWarnings st + tr_warningCount result,
                    checkResults := checkResults st @ [ts_failed_line result]\<rparr>, w1))
         | (Inl error, w1) \<Rightarrow>
             (st\<lparr>hasErrors := True,
                 checkResults := checkResults st @ [error_line ''TypeScript'' error]\<rparr>, w1))
      else (st\<lparr>checkResults := checkResults st @ [disabled_line ''TypeScript'']\<rparr>, w))"

text \<open>The coverage block.\<close>

definition coverage_step ::
  "'w platform \<Rightarrow> IParams \<Rightarrow> run_state \<Rightarrow> 'w \<Rightarrow> run_state \<times> 'w" where
  "coverage_step pf params st w =
     (if is_true (p_enableTypeScriptCoverageReport params) then
        (case performTypeScriptCoverageCheck pf (coverageConfig params) w of
           (Inr result, w1) \<Rightarrow>
             (if cr_success result then
                (st\<lparr>checkResults := checkResults st @ [coverage_name @ '': '' @ zh_passed]\<rparr>, w1)
              else
                (st\<lparr>hasErrors := True,
                    checkResults := checkResults st @ [coverage_name @ '': '' @ zh_failed]\<rparr>, w1))
         | (Inl error, w1) \<Rightarrow>
             (st\<lparr>hasErrors := True,
                 checkResults := checkResults st @ [error_line coverage_name error]\<rparr>, w1))
      else (st\<lparr>checkResults := checkResults st @ [disabled_line coverage_name]\<rparr>, w))"

subsection \<open>The run\<close>

text \<open>
  What a run ends with: the exit code of the process and, when the run came as far as
  the summary block, the collected state whose \<open>checkResults\<close> are the lines of that
  block. The exit code is the number given to \<open>process.exit\<close>, and \<open>0\<close> for a process that
  ends without calling it; the code \<open>-1\<close> reaches the parent process as the status 255
  on POSIX systems.
\<close>

record run_end =
  exit_code :: int
  summary :: "run_state option"

text \<open>
  \<open>runStep\<close> with the two handlers at the end of index.ts. An error of \<open>process.chdir\<close>
  rejects \<open>runStep\<close> and the last handler exits with \<open>-1\<close>; a failing user script exits
  with \<open>1\<close>; otherwise the three blocks run in order, the summary is printed, and the
  process exits with \<open>1\<close> when \<open>hasErrors\<close> is set and ends normally (code \<open>0\<close>) when not.
\<close>

definition runStep :: "'w platform \<Rightarrow> IParams \<Rightarrow> 'w \<Rightarrow> run_end \<times> 'w" where
  "runStep pf params w =
     (case chdir pf (p_projectDir params) w of
        (Inl error, w1) \<Rightarrow> (\<lparr>exit_code = - 1, summary = None\<rparr>, w1)
      | (Inr u, w1) \<Rightarrow>
          (case runUserScript pf (resolve_projectDir params) (p_userScript params) w1 of
             (Inl error, w2) \<Rightarrow> (\<lparr>exit_code = 1, summary = None\<rparr>, w2)
           | (Inr u2, w2) \<Rightarrow>
               (case eslint_step pf params initial_state w2 of
                  (st1, w3) \<Rightarrow>
                    (case typescript_step pf params st1 w3 of
                       (st2, w4) \<Rightarrow>
                         (case coverage_step pf params st2 w4 of
                            (st3, w5) \<Rightarrow>
                              (\<lparr>exit_code = (if hasErrors st3 then 1 else 0),
                                summary = Some st3\<rparr>, w5))))))"

section \<open>Notions used in the statements\<close>

text \<open>
  A call of a checker has \<open>success = true\<close> when it returned an outcome whose \<open>success\<close>
  is set; a call that threw has not.
\<close>

definition eslint_succeeds :: "js_error + ESLintResult \<Rightarrow> bool" where
  "eslint_succeeds outcome = (case outcome of Inl e \<Rightarrow> False | Inr r \<Rightarrow> er_success r)"

definition typescript_succeeds :: "js_error + TypeScriptResult \<Rightarrow> bool" where
  "typescript_succeeds outcome = (case outcome of Inl e \<Rightarrow> False | Inr r \<Rightarrow> tr_success r)"

definition coverage_succeeds :: "js_error + TypeScriptCoverageResult \<Rightarrow> bool" where
  "coverage_succeeds outcome = (case outcome of Inl e \<Rightarrow> False | Inr r \<Rightarrow> cr_success r)"

text \<open>
  The summary line of a checker that ran: errored when the call threw, passed or failed
  by the outcome's \<open>success\<close> otherwise.
\<close>

definition eslint_entry :: "js_error + ESLintResult \<Rightarrow> string" where
  "eslint_entry outcome =
     (case outcome of
        Inl e \<Rightarrow> error_line ''ESLint'' e
      | Inr r \<Rightarrow> if er_success r then eslint_passed_line r else eslint_failed_line r)"

definition typescript_entry :: "js_error + TypeScriptResult \<Rightarrow> string" where
  "typescript_entry outcome =
     (case outcome of
        Inl e \<Rightarrow> error_line ''TypeScript'' e
      | Inr r \<Rightarrow> if tr_success r then ts_passed_line r else ts_failed_line r)"

definition coverage_entry :: "js_error + TypeScriptCoverageResult \<Rightarrow> string" where
  "coverage_entry outcome =
     (case outcome of
        Inl e \<Rightarrow> error_line coverage_name e
      | Inr r \<Rightarrow> if cr_success r then coverage_name @ '': '' @ zh_passed
                 else coverage_name @ '': '' @ zh_failed)"

text \<open>The files the ESLint block leaves for the TypeScript block.\<close>

definition files_after_eslint :: "js_error + ESLintResult \<Rightarrow> string list" where
  "files_after_eslint outcome = (case outcome of Inl e \<Rightarrow> [] | Inr r \<Rightarrow> er_checkedFiles r)"

text \<open>
  Every enabled checker has \<open>success = true\<close>, for the calls a run makes from the world
  \<open>w2\<close> in which the checkers start: ESLint first, then TypeScript on the files ESLint
  checked, then coverage, each in the world its predecessors left.
\<close>

definition all_enabled_succeed :: "'w platform \<Rightarrow> IParams \<Rightarrow> 'w \<Rightarrow> bool" where
  "all_enabled_succeed pf params w2 =
     (let o1 = performESLintCheck pf (eslintConfig params) w2;
          w3 = (if is_true (p_enableESLintCheck params) then snd o1 else w2);
          files = (if is_true (p_enableESLintCheck params) then files_after_eslint (fst o1)
                   else []);
          o2 = performTypeScriptCheck pf (resolve_projectDir params) files
                 (is_true (p_fullTypeScriptCheckMode params)) (resolve_checkDirectories params)
                 (resolve_sourceBranch params) (resolve_targetBranch params) w3;
          w4 = (if is_true (p_enableTypeScriptCheck params) then snd o2 else w3);
          o3 = performTypeScriptCoverageCheck pf (coverageConfig params) w4
      in (is_true (p_enableESLintCheck params) \<longrightarrow> eslint_succeeds (fst o1))
         \<and> (is_true (p_enableTypeScriptCheck params) \<longrightarrow> typescript_succeeds (fst o2))
         \<and> (is_true (p_enableTypeScriptCoverageReport params) \<longrightarrow>
              coverage_succeeds (fst o3)))"

section \<open>Example platforms\<close>

text \<open>
  A world that is the list of the commands run so far (child processes and fetches), and
  a platform on it where every git query finds nothing, no file exists and every child
  process succeeds with no output. The scenarios below override single operations.
\<close>

definition LF :: string where
  "LF = [CHR 0x0A]"

definition base_platform :: "string list platform" where
  "base_platform =
     \<lparr>simpleGit = (\<lambda>dir w. Inr ()),
      git_fetch = (\<lambda>dir w. (Inr (), w @ [''git fetch''])),
      git_diff = (\<lambda>dir args w. Inr []),
      git_log = (\<lambda>dir args w. Inr None),
      git_show = (\<lambda>dir args w. Inl (new_Error ''bad object'')),
      git_catFile = (\<lambda>dir args w. Inl (new_Error ''bad object'')),
      git_raw = (\<lambda>dir args w. Inl (new_Error ''bad object'')),
      execa = (\<lambda>call w. (Inr \<lparr>ok_stdout = [], ok_all = None\<rparr>, w @ [ex_file call])),
      existsSync = (\<lambda>p w. False),
      readFileSync = (\<lambda>p w. Inl (new_Error ''ENOENT'')),
      writeFileSync = (\<lambda>p content w. (Inr (), w)),
      path_join = (\<lambda>a b. a @ ''/'' @ b),
      chdir = (\<lambda>dir w. (Inr (), w)),
      JSON_parse = (\<lambda>s. Inl (new_Error ''SyntaxError'')),
      JSON_stringify = (\<lambda>v. []),
      regexp_replace = (\<lambda>pat rep s. Inr s),
      type_error_message = (\<lambda>v k. ''TypeError'')\<rparr>"

definition deploy_config :: ESLintConfig where
  "deploy_config =
     \<lparr>ec_enableCheck = True, ec_sourceBranch = [], ec_targetBranch = ''master'',
      ec_fullCheckMode = False, ec_workSpace = ''/ws'', ec_projectDir = ''/ws/app'',
      ec_checkDirectories = [''src''], ec_envBranchDeployMode = True,
      ec_ciCommitRefName = Some ''deploy''\<rparr>"

text \<open>
  A history where the last merge on \<open>deploy\<close> is \<open>M\<close> with parents \<open>T\<close> (the mainline
  tip) and \<open>B\<close>, the branch of \<open>B\<close> left the mainline at \<open>A\<close>, and \<open>A..B\<close> changed two
  files; every other diff names another file. As git does, \<open>show\<close> ends the line of the
  parents with a line feed, and \<open>cat-file -e\<close> accepts the name \<open>B\<close> and no other.
\<close>

definition merged_platform :: "string list platform" where
  "merged_platform =
     base_platform
       \<lparr>git_log := (\<lambda>dir args w.
          if args = [''--merges'', ''--first-parent'', ''deploy'', ''-n'', ''1'']
          then Inr (Some ''M'') else Inr None),
        git_show := (\<lambda>dir args w.
          if args = [''M'', ''--pretty=format:%P''] then Inr (''T B'' @ LF)
          else Inl (new_Error ''bad object'')),
        git_catFile := (\<lambda>dir args w.
          if args = [''-e'', ''B''] then Inr [] else Inl (new_Error ''bad object'')),
        git_raw := (\<lambda>dir args w.
          if args = [''merge-base'', ''origin/master'', ''B''] then Inr (''A'' @ LF)
          else Inl (new_Error ''bad object'')),
        git_diff := (\<lambda>dir args w.
          if args = [''--name-only'', ''A'', ''B'']
          then Inr (''src/a.ts'' @ LF @ ''src/b.ts'' @ LF)
          else Inr (''src/other.ts'' @ LF))\<rparr>"

text \<open>
  The same history in a repository where no diff but \<open>A..B\<close> can be taken: \<open>origin/\<close>
  followed by nothing names no revision.
\<close>

definition deploy_run_platform :: "string list platform" where
  "deploy_run_platform =
     merged_platform
       \<lparr>git_diff := (\<lambda>dir args w.
          if args = [''--name-only'', ''A'', ''B'']
          then Inr (''src/a.ts'' @ LF @ ''src/b.ts'' @ LF)
          else Inl (new_Error ''bad revision''))\<rparr>"

text \<open>A merge commit that shows one parent only.\<close>

definition one_parent_platform :: "string list platform" where
  "one_parent_platform =
     merged_platform
       \<lparr>git_show := (\<lambda>dir args w.
          if args = [''M'', ''--pretty=format:%P''] then Inr (''T'' @ LF)
          else Inl (new_Error ''bad object''))\<rparr>"

text \<open>A merge commit whose second parent is not an object of the repository.\<close>

definition unreachable_platform :: "string list platform" where
  "unreachable_platform =
     merged_platform\<lparr>git_catFile := (\<lambda>dir args w. Inl (new_Error ''bad object''))\<rparr>"

text \<open>
  A repository where only the diff of \<open>origin/master\<close> against \<open>HEAD\<close> is defined (one
  changed file); \<open>origin/\<close> followed by nothing names no revision.
\<close>

definition head_platform :: "string list platform" where
  "head_platform =
     base_platform
       \<lparr>git_diff := (\<lambda>dir args w.
          if args = [''--name-only'', ''origin/master'', ''HEAD''] then Inr (''src/a.ts'' @ LF)
          else Inl (new_Error ''bad revision''))\<rparr>"

definition head_ts_config :: TypeScriptConfig where
  "head_ts_config =
     \<lparr>tc_projectDir = ''/ws/app'', tc_files = [], tc_fullCheck = False,
      tc_checkDirectories = [''src''], tc_sourceBranch = [], tc_targetBranch = ''master''\<rparr>"

text \<open>
  A project where every path exists, the diff names \<open>src/a.ts\<close>, and every command run
  through the shell (the linter, the compiler) exits with code 1 and the given output.
\<close>

definition findings_platform :: "string \<Rightarrow> string list platform" where
  "findings_platform out =
     base_platform
       \<lparr>git_diff := (\<lambda>dir args w. Inr (''src/a.ts'' @ LF)),
        existsSync := (\<lambda>p w. True),
        execa := (\<lambda>call w.
          if ex_shell call
          then (Inl \<lparr>message = ''Command failed'', err_stdout = Some out, err_all = None,
                     exitCode = Some 1\<rparr>, w @ [ex_file call])
          else (Inr \<lparr>ok_stdout = [], ok_all = None\<rparr>, w @ [ex_file call]))\<rparr>"

definition direct_config :: ESLintConfig where
  "direct_config =
     \<lparr>ec_enableCheck = True, ec_sourceBranch = ''feature'', ec_targetBranch = ''master'',
      ec_fullCheckMode = False, ec_workSpace = ''/ws'', ec_projectDir = ''/ws/app'',
      ec_checkDirectories = [''src''], ec_envBranchDeployMode = False,
      ec_ciCommitRefName = None\<rparr>"

definition direct_ts_config :: TypeScriptConfig where
  "direct_ts_config =
     \<lparr>tc_projectDir = ''/ws/app'', tc_files = [''src/a.ts''], tc_fullCheck = False,
      tc_checkDirectories = [''src''], tc_sourceBranch = ''feature'',
      tc_targetBranch = ''master''\<rparr>"

text \<open>Outputs of the linter: an error and a warning; a warning only; free text.\<close>

definition lint_error_and_warning :: string where
  "lint_error_and_warning =
     ''src/a.ts: line 3, col 5, Error - Unexpected var. (no-var)'' @ LF @
     ''src/a.ts: line 9, col 1, Warning - Missing semicolon. (semi)'' @ LF @ LF @
     ''2 problems''"

definition lint_warning_only :: string where
  "lint_warning_only =
     ''src/a.ts: line 9, col 1, Warning - Missing semicolon. (semi)'' @ LF @ LF @
     ''1 problem''"

definition lint_free_text :: string where
  "lint_free_text = ''Parsing Error - unexpected token''"

definition lint_crash :: string where
  "lint_crash = ''Oops! Something went wrong!''"

text \<open>Output of the compiler: two errors in one file and the closing line.\<close>

definition tsc_two_errors :: string where
  "tsc_two_errors =
     ''src/a.ts(3,5): error TS2322: Type mismatch.'' @ LF @
     ''src/a.ts(7,1): error TS2304: Cannot find name.'' @ LF @ LF @
     ''Found 2 errors in the same file.''"

text \<open>A project where exactly one source file is on disk.\<close>

definition one_file_platform :: "string list platform" where
  "one_file_platform = base_platform\<lparr>existsSync := (\<lambda>p w. p = ''/ws/app/src/a.ts'')\<rparr>"

text \<open>
  A project directory outside any git working tree: \<open>git\<close> exits non-zero, every other
  command succeeds, and of the files asked for only \<open>tsconfig.json\<close> exists.
\<close>

definition not_git_platform :: "string list platform" where
  "not_git_platform =
     base_platform
       \<lparr>existsSync := (\<lambda>p w. p = ''/ws/app/tsconfig.json''),
        execa := (\<lambda>call w.
          if ex_file call = ''git''
          then (Inl \<lparr>message = ''Command failed'', err_stdout = Some [], err_all = None,
                     exitCode = Some 128\<rparr>, w @ [ex_file call])
          else (Inr \<lparr>ok_stdout = [], ok_all = None\<rparr>, w @ [ex_file call]))\<rparr>"

definition no_params :: IParams where
  "no_params =
     \<lparr>p_workSpace = ''/ws'', p_projectDir = ''/ws/app'', p_userScript = None,
      p_enableESLintCheck = None, p_sourceBranch = None, p_targetBranch = None,
      p_fullCheckMode = None, p_checkDirectories = None, p_enableTypeScriptCheck = None,
      p_fullTypeScriptCheckMode = None, p_envBranchDeployMode = None,
      p_ciCommitRefName = None, p_gitBranch = None, p_enableTypeScriptCoverageReport = None,
      p_typeScriptCoverageThreshold = None\<rparr>"

text \<open>ESLint and a full TypeScript check enabled, coverage disabled.\<close>

definition lint_and_types_params :: IParams where
  "lint_and_types_params =
     no_params\<lparr>p_enableESLintCheck := Some ''true'', p_enableTypeScriptCheck := Some ''true'',
               p_fullTypeScriptCheckMode := Some ''true''\<rparr>"

text \<open>Every checker disabled and a user script to run.\<close>

definition script_only_params :: IParams where
  "script_only_params = no_params\<lparr>p_userScript := Some ''pnpm build''\<rparr>"

text \<open>The TypeScript check and the coverage check enabled.\<close>

definition types_and_coverage_params :: IParams where
  "types_and_coverage_params =
     no_params\<lparr>p_enableTypeScriptCheck := Some ''true'',
               p_enableTypeScriptCoverageReport := Some ''true''\<rparr>"

text \<open>
  A project in the directory \<open>/ws/app(1\<close>, which is not a regular expression (the
  group is not closed): the compiler reports an error and the \<open>catch\<close> block of the
  TypeScript check throws. The manifest is the empty object.
\<close>

definition throwing_compiler_platform :: "string list platform" where
  "throwing_compiler_platform =
     (findings_platform ''src/a.ts(1,1): error TS1005: expected.'')
       \<lparr>regexp_replace := (\<lambda>pat rep s.
          if pat = ''/ws/app(1'' then Inl (new_Error ''Invalid regular expression'')
          else Inr s),
        readFileSync := (\<lambda>p w. Inr ''{}''),
        JSON_parse := (\<lambda>s. Inr (JObj []))\<rparr>"

text \<open>The TypeScript check and the coverage check enabled, in that directory.\<close>

definition odd_directory_params :: IParams where
  "odd_directory_params =
     no_params\<lparr>p_projectDir := ''/ws/app(1'', p_enableTypeScriptCheck := Some ''true'',
               p_enableTypeScriptCoverageReport := Some ''true''\<rparr>"

text \<open>Only a full TypeScript check enabled.\<close>

definition types_only_params :: IParams where
  "types_only_params =
     no_params\<lparr>p_enableTypeScriptCheck := Some ''true'',
               p_fullTypeScriptCheckMode := Some ''true''\<rparr>"

text \<open>Every checker enabled, all incremental.\<close>

definition all_enabled_params :: IParams where
  "all_enabled_params =
     no_params\<lparr>p_enableESLintCheck := Some ''true'', p_enableTypeScriptCheck := Some ''true'',
               p_enableTypeScriptCoverageReport := Some ''true''\<rparr>"

text \<open>A project directory that does not exist: \<open>process.chdir\<close> throws.\<close>

definition no_directory_platform :: "string list platform" where
  "no_directory_platform =
     base_platform\<lparr>chdir := (\<lambda>dir w. (Inl (new_Error ''ENOENT''), w))\<rparr>"

text \<open>Only ESLint enabled, against the branch \<open>feature\<close>.\<close>

definition lint_only_params :: IParams where
  "lint_only_params =
     no_params\<lparr>p_enableESLintCheck := Some ''true'', p_sourceBranch := Some ''feature''\<rparr>"

section \<open>Properties\<close>

lemma split_on_nonempty: "split_on c s \<noteq> []"
  by (induction s) (auto split: list.splits)

lemma trim_simps [simp]:
  "trim [] = []"
  by (simp add: trim_def)

subsection \<open>Branch-deploy resolution\<close>

lemma split_on_without: "c \<notin> set s \<Longrightarrow> split_on c s = [s]"
  by (induction s) auto

lemma split_on_at: "c \<notin> set a \<Longrightarrow> split_on c (a @ c # b) = a # split_on c b"
  by (induction a) auto

lemma trim_keeps_a_letter:
  assumes "s \<noteq> []" and "\<forall>c \<in> set s. \<not> js_whitespace c"
  shows "trim (s @ t) \<noteq> []"
proof -
  from assms obtain x xs where s: "s = x # xs" and x: "\<not> js_whitespace x"
    by (cases s) auto
  have "dropWhile js_whitespace (s @ t) = s @ t"
    using s x by simp
  moreover have "dropWhile js_whitespace (rev (s @ t)) \<noteq> []"
    using s x by (auto simp: dropWhile_eq_Nil_conv)
  ultimately show ?thesis
    by (simp add: trim_def)
qed

text \<open>
  What \<open>parents_of\<close> makes of the line git prints for a merge of two parents: the second
  parent keeps the line feed that ends the line, since the pieces are tested with
  \<open>trim\<close> but not trimmed.
\<close>

lemma parents_of_git_line:
  assumes "mainlineTip \<noteq> []" and "B \<noteq> []"
    and "\<forall>c \<in> set (mainlineTip @ B). \<not> js_whitespace c"
  shows "parents_of (mainlineTip @ '' '' @ B @ [CHR 0x0A]) = [mainlineTip, B @ [CHR 0x0A]]"
proof -
  have sp: "js_whitespace (CHR '' '')"
    by (simp add: js_whitespace_def)
  have no1: "CHR '' '' \<notin> set mainlineTip" and no2: "CHR '' '' \<notin> set (B @ [CHR 0x0A])"
    using assms(3) sp by auto
  have "split_on (CHR '' '') (mainlineTip @ CHR '' '' # (B @ [CHR 0x0A])) =
          [mainlineTip, B @ [CHR 0x0A]]"
    using split_on_at [OF no1] split_on_without [OF no2] by simp
  moreover have "trim mainlineTip \<noteq> []"
    using trim_keeps_a_letter [of mainlineTip "[]"] assms(1,3) by simp
  moreover have "trim (B @ [CHR 0x0A]) \<noteq> []"
    using trim_keeps_a_letter [of B "[CHR 0x0A]"] assms(2,3) by simp
  ultimately show ?thesis
    by (simp add: parents_of_def)
qed

text \<open>
  C1. The claim has the resolver return the diff between the merge-base and \<open>B\<close> whenever
  the merge commit has the two parents \<open>[mainlineTip, B]\<close> and \<open>B\<close> is an object of the
  repository. The code does not get that far: git ends the line of the parents with a
  line feed, the code takes the second piece of the line as it is, and so asks whether
  \<open>B\<close> followed by a line feed is an object. When git says no, the resolver returns what
  \<open>getChangedFiles\<close> returns, for every platform and configuration.
\<close>

theorem C1_second_parent_keeps_line_feed:
  assumes "git_log pf (ec_projectDir config)
             [''--merges'', ''--first-parent'', js_or (ec_ciCommitRefName config) ''develop'',
              ''-n'', ''1''] w = Inr (Some mergeCommit)"
    and "git_show pf (ec_projectDir config) [mergeCommit, ''--pretty=format:%P''] w
         = Inr (mainlineTip @ '' '' @ B @ [CHR 0x0A])"
    and "mainlineTip \<noteq> []" and "B \<noteq> []"
    and "\<forall>c \<in> set (mainlineTip @ B). \<not> js_whitespace c"
    and "git_catFile pf (ec_projectDir config) [''-e'', B @ [CHR 0x0A]] w = Inl e"
  shows "getEnvBranchChangedFiles pf config w = getChangedFiles pf config w"
proof (cases "simpleGit pf (ec_projectDir config) w")
  case (Inl e)
  then show ?thesis
    by (simp add: getEnvBranchChangedFiles_def getChangedFiles_def Let_def)
next
  case (Inr u)
  have p: "parents_of (mainlineTip @ CHR '' '' # B @ [CHR 0x0A]) = [mainlineTip, B @ [CHR 0x0A]]"
    using parents_of_git_line [OF assms(3) assms(4) assms(5)] by simp
  show ?thesis
    using Inr assms(1) assms(2) assms(6)
    by (simp add: getEnvBranchChangedFiles_def Let_def p)
qed

lemma diff_files_two:
  "diff_files (''src/a.ts'' @ LF @ ''src/b.ts'' @ LF) = [''src/a.ts'', ''src/b.ts'']"
  by (simp add: diff_files_def trim_def LF_def js_whitespace_def)

text \<open>
  The run of C1 on the history of \<open>deploy_run_platform\<close>: \<open>B\<close> is an object and the diff
  \<open>A..B\<close> names two files, and the resolver returns none, having fallen back to the
  direct diff against \<open>origin/\<close>.
\<close>

theorem C1_witness:
  "git_catFile deploy_run_platform (ec_projectDir deploy_config) [''-e'', ''B''] [] = Inr []
   \<and> git_diff deploy_run_platform (ec_projectDir deploy_config) [''--name-only'', ''A'', ''B''] []
       = Inr (''src/a.ts'' @ LF @ ''src/b.ts'' @ LF)
   \<and> diff_files (''src/a.ts'' @ LF @ ''src/b.ts'' @ LF) = [''src/a.ts'', ''src/b.ts'']
   \<and> getEnvBranchChangedFiles deploy_run_platform deploy_config [] = ([], [''git fetch''])"
proof -
  have h1: "git_log deploy_run_platform (ec_projectDir deploy_config)
              [''--merges'', ''--first-parent'',
               js_or (ec_ciCommitRefName deploy_config) ''develop'', ''-n'', ''1''] []
            = Inr (Some ''M'')"
    by (simp add: deploy_run_platform_def merged_platform_def base_platform_def
        deploy_config_def js_or_def)
  have h2: "git_show deploy_run_platform (ec_projectDir deploy_config)
              [''M'', ''--pretty=format:%P''] [] = Inr (''T'' @ '' '' @ ''B'' @ [CHR 0x0A])"
    by (simp add: deploy_run_platform_def merged_platform_def base_platform_def LF_def)
  have h3: "''T'' \<noteq> []" and h4: "''B'' \<noteq> []"
    by simp_all
  have h5: "\<forall>c \<in> set (''T'' @ ''B''). \<not> js_whitespace c"
    by (simp add: js_whitespace_def)
  have h6: "git_catFile deploy_run_platform (ec_projectDir deploy_config)
              [''-e'', ''B'' @ [CHR 0x0A]] [] = Inl (new_Error ''bad object'')"
    by (simp add: deploy_run_platform_def merged_platform_def base_platform_def)
  have direct: "getChangedFiles deploy_run_platform deploy_config [] = ([], [''git fetch''])"
    by (simp add: getChangedFiles_def deploy_run_platform_def merged_platform_def
        base_platform_def deploy_config_def)
  have object: "git_catFile deploy_run_platform (ec_projectDir deploy_config) [''-e'', ''B''] []
                = Inr []"
    by (simp add: deploy_run_platform_def merged_platform_def base_platform_def)
  have changed: "git_diff deploy_run_platform (ec_projectDir deploy_config)
                   [''--name-only'', ''A'', ''B''] []
                 = Inr (''src/a.ts'' @ LF @ ''src/b.ts'' @ LF)"
    by (simp add: deploy_run_platform_def merged_platform_def base_platform_def)
  from C1_second_parent_keeps_line_feed [OF h1 h2 h3 h4 h5 h6] direct object changed
    diff_files_two
  show ?thesis by simp
qed

text \<open>
  C2. In branch-deploy mode, when no first-parent merge commit is found on the deploy
  branch, or the merge commit shows fewer than two parents, or its second parent is not
  an object of the repository, the resolver returns what \<open>getChangedFiles\<close> returns for
  the same configuration in the same world.
\<close>

theorem C2_fallback_is_direct_mode:
  assumes "git_log pf (ec_projectDir config)
             [''--merges'', ''--first-parent'', js_or (ec_ciCommitRefName config) ''develop'',
              ''-n'', ''1''] w = Inr found"
    and "found = None
       \<or> (\<exists>mergeCommit shown. found = Some mergeCommit
            \<and> git_show pf (ec_projectDir config) [mergeCommit, ''--pretty=format:%P''] w = Inr shown
            \<and> length (parents_of shown) < 2)
       \<or> (\<exists>mergeCommit shown e. found = Some mergeCommit
            \<and> git_show pf (ec_projectDir config) [mergeCommit, ''--pretty=format:%P''] w = Inr shown
            \<and> 2 \<le> length (parents_of shown)
            \<and> git_catFile pf (ec_projectDir config) [''-e'', parents_of shown ! 1] w = Inl e)"
  shows "getEnvBranchChangedFiles pf config w = getChangedFiles pf config w"
proof (cases "simpleGit pf (ec_projectDir config) w")
  case (Inl e)
  then show ?thesis
    by (simp add: getEnvBranchChangedFiles_def getChangedFiles_def Let_def)
next
  case (Inr u)
  from assms(2) show ?thesis
  proof (elim disjE exE conjE)
    assume "found = None"
    with assms(1) Inr show ?thesis
      by (simp add: getEnvBranchChangedFiles_def Let_def)
  next
    fix mergeCommit shown
    assume "found = Some mergeCommit"
      and "git_show pf (ec_projectDir config) [mergeCommit, ''--pretty=format:%P''] w = Inr shown"
      and "length (parents_of shown) < 2"
    with assms(1) Inr show ?thesis
      by (simp add: getEnvBranchChangedFiles_def Let_def)
  next
    fix mergeCommit shown e
    assume "found = Some mergeCommit"
      and "git_show pf (ec_projectDir config) [mergeCommit, ''--pretty=format:%P''] w = Inr shown"
      and "2 \<le> length (parents_of shown)"
      and "git_catFile pf (ec_projectDir config) [''-e'', parents_of shown ! 1] w = Inl e"
    with assms(1) Inr show ?thesis
      by (simp add: getEnvBranchChangedFiles_def Let_def)
  qed
qed

lemma parents_T: "parents_of (''T'' @ LF) = [''T'' @ LF]"
  by (simp add: parents_of_def trim_def js_whitespace_def LF_def)

lemma parents_T_B: "parents_of (''T B'' @ LF) = [''T'', ''B'' @ LF]"
  by (simp add: parents_of_def trim_def js_whitespace_def LF_def)

theorem C2_witness:
  "getEnvBranchChangedFiles base_platform deploy_config [] =
     getChangedFiles base_platform deploy_config []
   \<and> getEnvBranchChangedFiles one_parent_platform deploy_config [] =
     getChangedFiles one_parent_platform deploy_config []
   \<and> getEnvBranchChangedFiles unreachable_platform deploy_config [] =
     getChangedFiles unreachable_platform deploy_config []
   \<and> getChangedFiles unreachable_platform deploy_config [] = ([''src/other.ts''], [''git fetch''])"
proof -
  have a: "getEnvBranchChangedFiles base_platform deploy_config [] =
           getChangedFiles base_platform deploy_config []"
    using C2_fallback_is_direct_mode [of base_platform deploy_config "[]" None]
    by (simp add: base_platform_def deploy_config_def js_or_def)
  have b: "getEnvBranchChangedFiles one_parent_platform deploy_config [] =
           getChangedFiles one_parent_platform deploy_config []"
    using C2_fallback_is_direct_mode [of one_parent_platform deploy_config "[]" "Some ''M''"]
    by (simp add: one_parent_platform_def merged_platform_def base_platform_def
        deploy_config_def js_or_def parents_T [simplified])
  have c: "getEnvBranchChangedFiles unreachable_platform deploy_config [] =
           getChangedFiles unreachable_platform deploy_config []"
    using C2_fallback_is_direct_mode [of unreachable_platform deploy_config "[]" "Some ''M''"]
    by (simp add: unreachable_platform_def merged_platform_def base_platform_def
        deploy_config_def js_or_def parents_T_B [simplified])
  have d: "getChangedFiles unreachable_platform deploy_config [] =
           ([''src/other.ts''], [''git fetch''])"
    by (simp add: getChangedFiles_def unreachable_platform_def merged_platform_def
        base_platform_def deploy_config_def diff_files_def trim_def LF_def js_whitespace_def)
  from a b c d show ?thesis by simp
qed

subsection \<open>Direct-mode resolution\<close>

lemma getChangedFiles_diff:
  assumes "simpleGit pf (ec_projectDir config) w = Inr u"
    and "git_fetch pf (ec_projectDir config) w = (Inr u1, w1)"
  shows "getChangedFiles pf config w =
           (case git_diff pf (ec_projectDir config)
                   [''--name-only'', ''origin/'' @ ec_targetBranch config,
                    ''origin/'' @ ec_sourceBranch config] w1 of
              Inl e \<Rightarrow> ([], w1)
            | Inr d \<Rightarrow> (diff_files d, w1))"
  using assms by (simp add: getChangedFiles_def)

lemma ts_getChangedFiles_source:
  assumes "simpleGit pf (tc_projectDir config) w = Inr u"
    and "git_fetch pf (tc_projectDir config) w = (Inr u1, w1)"
    and "tc_sourceBranch config \<noteq> []"
    and "git_diff pf (tc_projectDir config)
           [''--name-only'', ''origin/'' @ tc_targetBranch config,
            ''origin/'' @ tc_sourceBranch config] w1 = Inr d"
  shows "ts_getChangedFiles pf config w = (diff_files d, w1)"
  using assms by (simp add: ts_getChangedFiles_def)

lemma ts_getChangedFiles_HEAD:
  assumes "simpleGit pf (tc_projectDir config) w = Inr u"
    and "git_fetch pf (tc_projectDir config) w = (Inr u1, w1)"
    and "tc_sourceBranch config = []"
    and "git_diff pf (tc_projectDir config)
           [''--name-only'', ''origin/'' @ tc_targetBranch config, ''HEAD''] w1 = Inr d"
  shows "ts_getChangedFiles pf config w = (diff_files d, w1)"
  using assms by (simp add: ts_getChangedFiles_def)

text \<open>
  C3. With no source branch configured, the claim has the resolver diff the target
  against \<open>HEAD\<close>. \<open>getChangedFiles\<close> of typescript.ts does so (lemma
  \<open>ts_getChangedFiles_HEAD\<close>); \<open>getChangedFiles\<close> of eslint.ts, which is also the
  fallback of the branch-deploy traversal, diffs against \<open>origin/\<close> followed by the empty
  name. In a repository where only the diff against \<open>HEAD\<close> exists, the ESLint resolver
  and the branch-deploy fallback return no file, the TypeScript resolver the changed one.
\<close>

theorem C3_eslint_resolver_ignores_HEAD:
  "getChangedFiles head_platform deploy_config [] = ([], [''git fetch''])
   \<and> getEnvBranchChangedFiles head_platform deploy_config [] = ([], [''git fetch''])
   \<and> ts_getChangedFiles head_platform head_ts_config [] = ([''src/a.ts''], [''git fetch''])"
proof -
  have a: "getChangedFiles head_platform deploy_config [] = ([], [''git fetch''])"
    by (simp add: getChangedFiles_def head_platform_def base_platform_def deploy_config_def)
  have b: "getEnvBranchChangedFiles head_platform deploy_config [] =
           getChangedFiles head_platform deploy_config []"
    by (simp add: getEnvBranchChangedFiles_def head_platform_def base_platform_def
        deploy_config_def js_or_def)
  have c: "ts_getChangedFiles head_platform head_ts_config [] = ([''src/a.ts''], [''git fetch''])"
    by (simp add: ts_getChangedFiles_def head_platform_def base_platform_def head_ts_config_def
        diff_files_def trim_def LF_def js_whitespace_def)
  from a b c show ?thesis by simp
qed

subsection \<open>Scope filtering\<close>

text \<open>
  C10, as amended. Every path the frontend filter and the TypeScript filter let through
  exists under the project directory in the world the filter ran in, and is one of the
  paths given; the paths are without duplicates whenever the given paths are (the
  filters remove paths, they do not merge equal ones).
\<close>

theorem C10_filtered_paths:
  "(\<forall>p \<in> set (filterFrontendFiles pf files projectDir dirs w).
       existsSync pf (path_join pf projectDir p) w \<and> p \<in> set files)
   \<and> (\<forall>p \<in> set (filterTypeScriptFiles pf files projectDir dirs w).
       existsSync pf (path_join pf projectDir p) w \<and> p \<in> set files)
   \<and> (distinct files \<longrightarrow>
        distinct (filterFrontendFiles pf files projectDir dirs w)
        \<and> distinct (filterTypeScriptFiles pf files projectDir dirs w))"
  by (simp add: filterFrontendFiles_def filterTypeScriptFiles_def)

lemma in_src_a: "in_check_directory [''src''] ''src/a.ts''"
  by (simp add: in_check_directory_def startsWith_def trim_def js_whitespace_def)

lemma in_src_gone: "in_check_directory [''src''] ''src/gone.ts''"
  by (simp add: in_check_directory_def startsWith_def trim_def js_whitespace_def)

lemma frontend_scenario:
  "filterFrontendFiles one_file_platform [''src/a.ts'', ''docs/readme.md'', ''src/gone.ts'']
     ''/ws/app'' [''src''] [] = [''src/a.ts'']"
  by (simp add: filterFrontendFiles_def one_file_platform_def base_platform_def in_src_a
      in_src_gone frontendExtensions_def endsWith_def)

theorem C10_witness:
  "filterFrontendFiles one_file_platform [''src/a.ts'', ''docs/readme.md'', ''src/gone.ts'']
     ''/ws/app'' [''src''] [] = [''src/a.ts'']
   \<and> existsSync one_file_platform (path_join one_file_platform ''/ws/app'' ''src/a.ts'') []
   \<and> distinct (filterTypeScriptFiles one_file_platform
        [''src/a.ts'', ''docs/readme.md'', ''src/gone.ts''] ''/ws/app'' [''src''] [])"
  using C10_filtered_paths [of one_file_platform
      "[''src/a.ts'', ''docs/readme.md'', ''src/gone.ts'']" "''/ws/app''" "[''src'']" "[]"]
  by (simp add: frontend_scenario)

text \<open>
  C10 as stated fails: a path given twice comes out twice, from either filter.
\<close>

theorem C10_counterexample:
  "filterFrontendFiles one_file_platform [''src/a.ts'', ''src/a.ts''] ''/ws/app'' [''src''] []
     = [''src/a.ts'', ''src/a.ts'']
   \<and> filterTypeScriptFiles one_file_platform [''src/a.ts'', ''src/a.ts''] ''/ws/app'' [''src''] []
     = [''src/a.ts'', ''src/a.ts'']"
proof -
  have ext: "list_ex (endsWith ''src/a.ts'') typeScriptExtensions"
    by (simp add: typeScriptExtensions_def endsWith_def)
  have excl: "\<not> shouldExclude ''src/a.ts''"
    by (simp add: shouldExclude_def excludePatterns_def endsWith_def startsWith_def)
  have front: "list_ex (endsWith ''src/a.ts'') frontendExtensions"
    by (simp add: frontendExtensions_def endsWith_def)
  show ?thesis
    by (simp add: filterFrontendFiles_def filterTypeScriptFiles_def one_file_platform_def
        base_platform_def in_src_a ext excl front)
qed

subsection \<open>Checker outcomes\<close>

lemma runESLintCheck_success:
  "runESLintCheck pf files projectDir isFullCheck w = (r, w1) \<Longrightarrow>
   er_success r = (er_errorCount r = 0)"
  by (auto simp: runESLintCheck_def Let_def split: if_splits prod.splits sum.splits)

lemma performESLintCheck_success:
  "performESLintCheck pf config w = (Inr r, w1) \<Longrightarrow> er_success r = (er_errorCount r = 0)"
  by (auto simp: performESLintCheck_def Let_def
      split: if_splits prod.splits sum.splits dest: runESLintCheck_success)

lemma runTypeScriptCheck_success:
  "runTypeScriptCheck pf config w = (Inr t, w1) \<Longrightarrow> tr_success t = (tr_errorCount t = 0)"
  by (auto simp: runTypeScriptCheck_def Let_def split: if_splits prod.splits sum.splits)

text \<open>
  C5. Every outcome the ESLint checker and the TypeScript checker return, the one parsed
  from a tool that exited non-zero included, has \<open>success\<close> exactly when its error
  count is zero; the warning count plays no part.
\<close>

theorem C5_success_iff_no_errors:
  "(performESLintCheck pf config w = (Inr r, w1) \<longrightarrow> er_success r = (er_errorCount r = 0))
   \<and> (performTypeScriptCheck pf projectDir files fullCheck dirs sourceBranch targetBranch w
          = (Inr t, w2) \<longrightarrow> tr_success t = (tr_errorCount t = 0))"
  by (auto simp: performTypeScriptCheck_def
      dest: performESLintCheck_success runTypeScriptCheck_success)

lemma lint_warning_only_run:
  "performESLintCheck (findings_platform lint_warning_only) direct_config [] =
     (Inr \<lparr>er_success = True, er_checkedFiles = [''src/a.ts''], er_errorCount = 0,
           er_warningCount = 1, er_output = lint_warning_only\<rparr>,
      [''git'', ''git fetch'', ''npx eslint '' @ [CHR 0x22] @ ''src/a.ts'' @ [CHR 0x22] @
        '' --format=compact''])"
  by code_simp

lemma tsc_two_errors_run:
  "performTypeScriptCheck (findings_platform tsc_two_errors) ''/ws/app'' [''src/a.ts''] False
     [''src''] ''feature'' ''master'' [] =
     (Inr \<lparr>tr_success = False, tr_errorCount = 2, tr_warningCount = 0,
           tr_output = tsc_two_errors, tr_checkedFiles = 1\<rparr>,
      [''npx tsc --noEmit --skipLibCheck '' @ [CHR 0x22] @ ''src/a.ts'' @ [CHR 0x22]])"
  by code_simp

theorem C5_witness:
  "performESLintCheck (findings_platform lint_warning_only) direct_config [] =
     (Inr \<lparr>er_success = True, er_checkedFiles = [''src/a.ts''], er_errorCount = 0,
           er_warningCount = 1, er_output = lint_warning_only\<rparr>,
      [''git'', ''git fetch'', ''npx eslint '' @ [CHR 0x22] @ ''src/a.ts'' @ [CHR 0x22] @
        '' --format=compact''])
   \<and> performTypeScriptCheck (findings_platform tsc_two_errors) ''/ws/app'' [''src/a.ts''] False
     [''src''] ''feature'' ''master'' [] =
     (Inr \<lparr>tr_success = False, tr_errorCount = 2, tr_warningCount = 0,
           tr_output = tsc_two_errors, tr_checkedFiles = 1\<rparr>,
      [''npx tsc --noEmit --skipLibCheck '' @ [CHR 0x22] @ ''src/a.ts'' @ [CHR 0x22]])"
  using C5_success_iff_no_errors [where pf = "findings_platform lint_warning_only"
      and config = direct_config and w = "[]"
      and r = "\<lparr>er_success = True, er_checkedFiles = [''src/a.ts''], er_errorCount = 0,
           er_warningCount = 1, er_output = lint_warning_only\<rparr>"
      and ?w1.0 = "[''git'', ''git fetch'', ''npx eslint '' @ [CHR 0x22] @ ''src/a.ts'' @
           [CHR 0x22] @ '' --format=compact'']"]
    C5_success_iff_no_errors [where pf = "findings_platform tsc_two_errors" and w = "[]"
      and projectDir = "''/ws/app''" and files = "[''src/a.ts'']" and fullCheck = False
      and dirs = "[''src'']" and sourceBranch = "''feature''" and targetBranch = "''master''"
      and t = "\<lparr>tr_success = False, tr_errorCount = 2, tr_warningCount = 0,
           tr_output = tsc_two_errors, tr_checkedFiles = 1\<rparr>"
      and ?w2.0 = "[''npx tsc --noEmit --skipLibCheck '' @ [CHR 0x22] @ ''src/a.ts'' @
           [CHR 0x22]]"]
  by (simp add: lint_warning_only_run tsc_two_errors_run)

text \<open>
  C9, as amended. When ESLint exits non-zero, the counts are those of the first pass (the
  line patterns) unless it found nothing, and then those of the second pass (the
  substrings \<open>Error -\<close> and \<open>Warning -\<close>); in both cases the outcome fails exactly
  when the error count so obtained is not zero. So after an empty first pass the outcome
  fails if and only if the second pass finds an error line, and an output in which both
  passes find nothing gives a successful outcome.
\<close>

theorem C9_two_pass_counts:
  assumes "isFullCheck \<or> files \<noteq> []"
    and "execa pf (shell_call (if isFullCheck then ''npx eslint . --format=compact''
                                else ''npx eslint '' @ quoted_files files @ '' --format=compact'')
                     projectDir) w = (Inl error, w1)"
    and "lines = split_on (CHR 0x0A) (js_or (err_stdout error) (message error))"
    and "runESLintCheck pf files projectDir isFullCheck w = (r, w2)"
  shows "(fold count_compact lines (0, 0) = (0, 0) \<longrightarrow>
            (er_errorCount r, er_warningCount r) = fold count_substring lines (0, 0)
            \<and> er_success r = (fst (fold count_substring lines (0, 0)) = 0))
       \<and> (fold count_compact lines (0, 0) \<noteq> (0, 0) \<longrightarrow>
            (er_errorCount r, er_warningCount r) = fold count_compact lines (0, 0)
            \<and> er_success r = (fst (fold count_compact lines (0, 0)) = 0))"
proof (cases "fold count_compact lines (0, 0) = (0, 0)")
  case True
  with assms show ?thesis
    by (auto simp: runESLintCheck_def eslint_counts_def Let_def split: if_splits)
next
  case False
  then have "\<not> (fst (fold count_compact lines (0, 0)) = 0
                 \<and> snd (fold count_compact lines (0, 0)) = 0)"
    by (metis prod.collapse)
  with assms False show ?thesis
    by (auto simp: runESLintCheck_def eslint_counts_def Let_def split: if_splits)
qed

lemma lint_free_text_first_pass:
  "fold count_compact (split_on (CHR 0x0A) lint_free_text) (0, 0) = (0, 0)"
  by code_simp

lemma lint_free_text_second_pass:
  "fold count_substring (split_on (CHR 0x0A) lint_free_text) (0, 0) = (1, 0)"
  by code_simp

lemma lint_free_text_run:
  "runESLintCheck (findings_platform lint_free_text) [''src/a.ts''] ''/ws/app'' False [] =
     (\<lparr>er_success = False, er_checkedFiles = [''src/a.ts''], er_errorCount = 1,
        er_warningCount = 0, er_output = lint_free_text\<rparr>,
      [''npx eslint '' @ [CHR 0x22] @ ''src/a.ts'' @ [CHR 0x22] @ '' --format=compact''])"
  by code_simp

lemma lint_crash_run:
  "runESLintCheck (findings_platform lint_crash) [''src/a.ts''] ''/ws/app'' False [] =
     (\<lparr>er_success = True, er_checkedFiles = [''src/a.ts''], er_errorCount = 0,
        er_warningCount = 0, er_output = lint_crash\<rparr>,
      [''npx eslint '' @ [CHR 0x22] @ ''src/a.ts'' @ [CHR 0x22] @ '' --format=compact''])"
  by code_simp

lemma lint_crash_second_pass:
  "fold count_substring (split_on (CHR 0x0A) lint_crash) (0, 0) = (0, 0)"
  by code_simp

lemma lint_crash_first_pass:
  "fold count_compact (split_on (CHR 0x0A) lint_crash) (0, 0) = (0, 0)"
  by code_simp

theorem C9_witness:
  "fold count_compact (split_on (CHR 0x0A) lint_free_text) (0, 0) = (0, 0)
   \<and> runESLintCheck (findings_platform lint_free_text) [''src/a.ts''] ''/ws/app'' False [] =
     (\<lparr>er_success = False, er_checkedFiles = [''src/a.ts''], er_errorCount = 1,
        er_warningCount = 0, er_output = lint_free_text\<rparr>,
      [''npx eslint '' @ [CHR 0x22] @ ''src/a.ts'' @ [CHR 0x22] @ '' --format=compact''])
   \<and> fold count_substring (split_on (CHR 0x0A) lint_free_text) (0, 0) = (1, 0)"
proof -
  have h1: "False \<or> [''src/a.ts''] \<noteq> []" by simp
  have h2: "execa (findings_platform lint_free_text)
              (shell_call (if False then ''npx eslint . --format=compact''
                           else ''npx eslint '' @ quoted_files [''src/a.ts''] @
                                '' --format=compact'') ''/ws/app'') [] =
            (Inl \<lparr>message = ''Command failed'', err_stdout = Some lint_free_text,
                   err_all = None, exitCode = Some 1\<rparr>,
             [''npx eslint '' @ [CHR 0x22] @ ''src/a.ts'' @ [CHR 0x22] @ '' --format=compact''])"
    by code_simp
  have h3: "split_on (CHR 0x0A) lint_free_text =
            split_on (CHR 0x0A)
              (js_or (err_stdout \<lparr>message = ''Command failed'', err_stdout = Some lint_free_text,
                                   err_all = None, exitCode = Some 1\<rparr>)
                 (message \<lparr>message = ''Command failed'', err_stdout = Some lint_free_text,
                            err_all = None, exitCode = Some 1\<rparr>))"
    by code_simp
  from C9_two_pass_counts [OF h1 h2 h3 lint_free_text_run]
  show ?thesis
    by (simp add: lint_free_text_first_pass lint_free_text_second_pass lint_free_text_run)
qed

text \<open>
  C9 as stated fails. For the output \<open>Parsing Error - unexpected token\<close> the first pass
  finds nothing and the outcome fails although the second pass does find something (one
  error); for an output in which both passes find nothing the outcome is a success.
\<close>

theorem C9_counterexample:
  "fold count_compact (split_on (CHR 0x0A) lint_free_text) (0, 0) = (0, 0)
   \<and> fold count_substring (split_on (CHR 0x0A) lint_free_text) (0, 0) = (1, 0)
   \<and> er_success (fst (runESLintCheck (findings_platform lint_free_text) [''src/a.ts'']
                          ''/ws/app'' False [])) = False
   \<and> fold count_compact (split_on (CHR 0x0A) lint_crash) (0, 0) = (0, 0)
   \<and> fold count_substring (split_on (CHR 0x0A) lint_crash) (0, 0) = (0, 0)
   \<and> er_success (fst (runESLintCheck (findings_platform lint_crash) [''src/a.ts'']
                          ''/ws/app'' False [])) = True"
  by (simp add: lint_free_text_first_pass lint_free_text_second_pass lint_free_text_run
      lint_crash_first_pass lint_crash_second_pass lint_crash_run)

subsection \<open>The orchestrator\<close>

lemma eslint_step_results:
  "checkResults (fst (eslint_step pf params st w)) =
     checkResults st @
       [if is_true (p_enableESLintCheck params)
        then eslint_entry (fst (performESLintCheck pf (eslintConfig params) w))
        else disabled_line ''ESLint'']"
  by (auto simp: eslint_step_def eslint_entry_def split: prod.splits sum.splits)

lemma eslint_step_errors:
  "hasErrors (fst (eslint_step pf params st w)) =
     (hasErrors st \<or> (is_true (p_enableESLintCheck params)
        \<and> \<not> eslint_succeeds (fst (performESLintCheck pf (eslintConfig params) w))))"
  by (auto simp: eslint_step_def eslint_succeeds_def split: prod.splits sum.splits)

lemma eslint_step_files:
  "checkedFiles (fst (eslint_step pf params initial_state w)) =
     (if is_true (p_enableESLintCheck params)
      then files_after_eslint (fst (performESLintCheck pf (eslintConfig params) w))
      else [])"
  by (auto simp: eslint_step_def files_after_eslint_def initial_state_def
      split: prod.splits sum.splits)

lemma eslint_step_world:
  "snd (eslint_step pf params st w) =
     (if is_true (p_enableESLintCheck params)
      then snd (performESLintCheck pf (eslintConfig params) w) else w)"
  by (auto simp: eslint_step_def split: prod.splits sum.splits)

lemma typescript_step_results:
  "checkResults (fst (typescript_step pf params st w)) =
     checkResults st @
       [if is_true (p_enableTypeScriptCheck params)
        then typescript_entry (fst (performTypeScriptCheck pf (resolve_projectDir params)
               (checkedFiles st) (is_true (p_fullTypeScriptCheckMode params))
               (resolve_checkDirectories params) (resolve_sourceBranch params)
               (resolve_targetBranch params) w))
        else disabled_line ''TypeScript'']"
  by (auto simp: typescript_step_def typescript_entry_def split: prod.splits sum.splits)

lemma typescript_step_errors:
  "hasErrors (fst (typescript_step pf params st w)) =
     (hasErrors st \<or> (is_true (p_enableTypeScriptCheck params)
        \<and> \<not> typescript_succeeds (fst (performTypeScriptCheck pf (resolve_projectDir params)
               (checkedFiles st) (is_true (p_fullTypeScriptCheckMode params))
               (resolve_checkDirectories params) (resolve_sourceBranch params)
               (resolve_targetBranch params) w))))"
  by (auto simp: typescript_step_def typescript_succeeds_def split: prod.splits sum.splits)

lemma typescript_step_world:
  "snd (typescript_step pf params st w) =
     (if is_true (p_enableTypeScriptCheck params)
      then snd (performTypeScriptCheck pf (resolve_projectDir params)
               (checkedFiles st) (is_true (p_fullTypeScriptCheckMode params))
               (resolve_checkDirectories params) (resolve_sourceBranch params)
               (resolve_targetBranch params) w)
      else w)"
  by (auto simp: typescript_step_def split: prod.splits sum.splits)

lemma coverage_step_results:
  "checkResults (fst (coverage_step pf params st w)) =
     checkResults st @
       [if is_true (p_enableTypeScriptCoverageReport params)
        then coverage_entry (fst (performTypeScriptCoverageCheck pf (coverageConfig params) w))
        else disabled_line coverage_name]"
  by (auto simp: coverage_step_def coverage_entry_def split: prod.splits sum.splits)

lemma coverage_step_errors:
  "hasErrors (fst (coverage_step pf params st w)) =
     (hasErrors st \<or> (is_true (p_enableTypeScriptCoverageReport params)
        \<and> \<not> coverage_succeeds
             (fst (performTypeScriptCoverageCheck pf (coverageConfig params) w))))"
  by (auto simp: coverage_step_def coverage_succeeds_def split: prod.splits sum.splits)

lemma coverage_step_world:
  "snd (coverage_step pf params st w) =
     (if is_true (p_enableTypeScriptCoverageReport params)
      then snd (performTypeScriptCoverageCheck pf (coverageConfig params) w) else w)"
  by (auto simp: coverage_step_def split: prod.splits sum.splits)

text \<open>A run whose two preliminary steps succeed is the three blocks in order.\<close>

lemma runStep_blocks:
  assumes "chdir pf (p_projectDir params) w = (Inr u, w1)"
    and "runUserScript pf (resolve_projectDir params) (p_userScript params) w1 = (Inr u2, w2)"
    and "eslint_step pf params initial_state w2 = (st1, w3)"
    and "typescript_step pf params st1 w3 = (st2, w4)"
    and "coverage_step pf params st2 w4 = (st3, w5)"
  shows "runStep pf params w =
           (\<lparr>exit_code = (if hasErrors st3 then 1 else 0), summary = Some st3\<rparr>, w5)"
  using assms by (simp add: runStep_def)

text \<open>
  The exit code of a run whose two preliminary steps succeed, by the outcomes of the
  calls the run makes.
\<close>

lemma exit_code_of_checkers:
  assumes "chdir pf (p_projectDir params) w = (Inr u, w1)"
    and "runUserScript pf (resolve_projectDir params) (p_userScript params) w1 = (Inr u2, w2)"
    and "o1 = performESLintCheck pf (eslintConfig params) w2"
    and "w3 = (if is_true (p_enableESLintCheck params) then snd o1 else w2)"
    and "files = (if is_true (p_enableESLintCheck params) then files_after_eslint (fst o1)
                  else [])"
    and "o2 = performTypeScriptCheck pf (resolve_projectDir params) files
                (is_true (p_fullTypeScriptCheckMode params)) (resolve_checkDirectories params)
                (resolve_sourceBranch params) (resolve_targetBranch params) w3"
    and "w4 = (if is_true (p_enableTypeScriptCheck params) then snd o2 else w3)"
    and "o3 = performTypeScriptCoverageCheck pf (coverageConfig params) w4"
  shows "exit_code (fst (runStep pf params w)) =
           (if (is_true (p_enableESLintCheck params) \<longrightarrow> eslint_succeeds (fst o1))
               \<and> (is_true (p_enableTypeScriptCheck params) \<longrightarrow> typescript_succeeds (fst o2))
               \<and> (is_true (p_enableTypeScriptCoverageReport params) \<longrightarrow>
                    coverage_succeeds (fst o3))
            then 0 else 1)"
proof -
  obtain st1 v3 where s1: "eslint_step pf params initial_state w2 = (st1, v3)"
    by (cases "eslint_step pf params initial_state w2")
  obtain st2 v4 where s2: "typescript_step pf params st1 v3 = (st2, v4)"
    by (cases "typescript_step pf params st1 v3")
  obtain st3 v5 where s3: "coverage_step pf params st2 v4 = (st3, v5)"
    by (cases "coverage_step pf params st2 v4")
  have v3: "v3 = w3"
    using eslint_step_world [of pf params initial_state w2] s1 assms(3,4) by simp
  have f1: "checkedFiles st1 = files"
    using eslint_step_files [of pf params w2] s1 assms(3,5) by simp
  have e1: "hasErrors st1 =
              (is_true (p_enableESLintCheck params) \<and> \<not> eslint_succeeds (fst o1))"
    using eslint_step_errors [of pf params initial_state w2] s1 assms(3)
    by (simp add: initial_state_def)
  have v4: "v4 = w4"
    using typescript_step_world [of pf params st1 v3] s2 v3 f1 assms(6,7) by simp
  have e2: "hasErrors st2 =
              (hasErrors st1 \<or> (is_true (p_enableTypeScriptCheck params)
                 \<and> \<not> typescript_succeeds (fst o2)))"
    using typescript_step_errors [of pf params st1 v3] s2 v3 f1 assms(6) by simp
  have e3: "hasErrors st3 =
              (hasErrors st2 \<or> (is_true (p_enableTypeScriptCoverageReport params)
                 \<and> \<not> coverage_succeeds (fst o3)))"
    using coverage_step_errors [of pf params st2 v4] s3 v4 assms(8) by simp
  have "runStep pf params w =
          (\<lparr>exit_code = (if hasErrors st3 then 1 else 0), summary = Some st3\<rparr>, v5)"
    using runStep_blocks [OF assms(1) assms(2) s1 s2 s3] .
  then show ?thesis
    using e1 e2 e3 by auto
qed

text \<open>
  C4, as amended. The process exits with code 0 if and only if \<open>process.chdir\<close> and the
  user build script succeed and every enabled checker returned an outcome with
  \<open>success = true\<close>. Otherwise the exit is not zero: \<open>process.exit(-1)\<close> when
  \<open>process.chdir\<close> fails and \<open>process.exit(1)\<close> when the user build script fails, both
  with no summary and no checker run, and \<open>process.exit(1)\<close> when an enabled checker
  reported failure or threw. Warnings do not enter: \<open>success\<close> does not depend on them.
\<close>

theorem C4_exit_code:
  "(exit_code (fst (runStep pf params w)) = 0) =
     (\<exists>u w1 u2 w2. chdir pf (p_projectDir params) w = (Inr u, w1)
        \<and> runUserScript pf (resolve_projectDir params) (p_userScript params) w1 = (Inr u2, w2)
        \<and> all_enabled_succeed pf params w2)
   \<and> (\<forall>e w1. chdir pf (p_projectDir params) w = (Inl e, w1) \<longrightarrow>
         runStep pf params w = (\<lparr>exit_code = - 1, summary = None\<rparr>, w1))
   \<and> (\<forall>u w1 e w2. chdir pf (p_projectDir params) w = (Inr u, w1)
         \<and> runUserScript pf (resolve_projectDir params) (p_userScript params) w1 = (Inl e, w2)
         \<longrightarrow> runStep pf params w = (\<lparr>exit_code = 1, summary = None\<rparr>, w2))
   \<and> (\<forall>u w1 u2 w2. chdir pf (p_projectDir params) w = (Inr u, w1)
         \<and> runUserScript pf (resolve_projectDir params) (p_userScript params) w1 = (Inr u2, w2)
         \<and> \<not> all_enabled_succeed pf params w2
         \<longrightarrow> exit_code (fst (runStep pf params w)) = 1)"
proof -
  have ok: "exit_code (fst (runStep pf params w)) =
              (if all_enabled_succeed pf params w2 then 0 else 1)"
    if "chdir pf (p_projectDir params) w = (Inr u, w1)"
      and "runUserScript pf (resolve_projectDir params) (p_userScript params) w1 = (Inr u2, w2)"
    for u w1 u2 w2
    using exit_code_of_checkers [OF that refl refl refl refl refl refl]
    by (simp add: all_enabled_succeed_def Let_def)
  have no_dir: "runStep pf params w = (\<lparr>exit_code = - 1, summary = None\<rparr>, w1)"
    if "chdir pf (p_projectDir params) w = (Inl e, w1)" for e w1
    using that by (simp add: runStep_def)
  have no_build: "runStep pf params w = (\<lparr>exit_code = 1, summary = None\<rparr>, w2)"
    if "chdir pf (p_projectDir params) w = (Inr u, w1)"
      and "runUserScript pf (resolve_projectDir params) (p_userScript params) w1 = (Inl e, w2)"
    for u w1 e w2
    using that by (simp add: runStep_def)
  have zero: "(exit_code (fst (runStep pf params w)) = 0) =
     (\<exists>u w1 u2 w2. chdir pf (p_projectDir params) w = (Inr u, w1)
        \<and> runUserScript pf (resolve_projectDir params) (p_userScript params) w1 = (Inr u2, w2)
        \<and> all_enabled_succeed pf params w2)"
  proof (cases "chdir pf (p_projectDir params) w")
    case (Pair r w1)
    show ?thesis
    proof (cases r)
      case (Inl e)
      with Pair no_dir [of e w1] show ?thesis by simp
    next
      case (Inr u)
      note dir = Pair [unfolded Inr]
      show ?thesis
      proof (cases "runUserScript pf (resolve_projectDir params) (p_userScript params) w1")
        case (Pair r2 w2)
        show ?thesis
        proof (cases r2)
          case (Inl e)
          with dir Pair no_build [of u w1 e w2] show ?thesis by simp
        next
          case (Inr u2)
          with dir Pair ok [of u w1 u2 w2] show ?thesis by simp
        qed
      qed
    qed
  qed
  from zero no_dir no_build ok show ?thesis
    by (intro conjI allI impI) auto
qed

lemma warning_run:
  "runStep (findings_platform lint_warning_only) lint_only_params [] =
     (\<lparr>exit_code = 0,
       summary = Some \<lparr>checkedFiles = [''src/a.ts''], hasErrors = False, totalErrors = 0,
                       totalWarnings = 1,
                       checkResults =
                         [''ESLint: '' @ zh_passed @ '' (1'' @ zh_n_files @ '', 1'' @
                            zh_n_warnings @ '')'',
                          disabled_line ''TypeScript'', disabled_line coverage_name]\<rparr>\<rparr>,
      [''git'', ''git fetch'',
       ''npx eslint '' @ [CHR 0x22] @ ''src/a.ts'' @ [CHR 0x22] @ '' --format=compact''])"
  by code_simp

lemma failing_lint_run:
  "exit_code (fst (runStep (findings_platform lint_error_and_warning) lint_only_params [])) = 1"
  by code_simp

theorem C4_witness:
  "runStep (findings_platform lint_warning_only) lint_only_params [] =
     (\<lparr>exit_code = 0,
       summary = Some \<lparr>checkedFiles = [''src/a.ts''], hasErrors = False, totalErrors = 0,
                       totalWarnings = 1,
                       checkResults =
                         [''ESLint: '' @ zh_passed @ '' (1'' @ zh_n_files @ '', 1'' @
                            zh_n_warnings @ '')'',
                          disabled_line ''TypeScript'', disabled_line coverage_name]\<rparr>\<rparr>,
      [''git'', ''git fetch'',
       ''npx eslint '' @ [CHR 0x22] @ ''src/a.ts'' @ [CHR 0x22] @ '' --format=compact''])
   \<and> all_enabled_succeed (findings_platform lint_warning_only) lint_only_params []
   \<and> runStep no_directory_platform all_enabled_params [] =
       (\<lparr>exit_code = - 1, summary = None\<rparr>, [])
   \<and> exit_code (fst (runStep (findings_platform lint_error_and_warning) lint_only_params []))
       = 1
   \<and> \<not> all_enabled_succeed (findings_platform lint_error_and_warning) lint_only_params []"
proof -
  have dir: "chdir (findings_platform out) (p_projectDir lint_only_params) [] = (Inr (), [])"
    for out
    by (simp add: findings_platform_def base_platform_def)
  have build: "runUserScript (findings_platform out) (resolve_projectDir lint_only_params)
                 (p_userScript lint_only_params) [] = (Inr (), [])"
    for out
    by (simp add: runUserScript_def lint_only_params_def no_params_def)
  have good: "all_enabled_succeed (findings_platform lint_warning_only) lint_only_params []"
    using C4_exit_code [of "findings_platform lint_warning_only" lint_only_params "[]"]
      dir [of lint_warning_only] build [of lint_warning_only]
    by (simp add: warning_run)
  have bad: "\<not> all_enabled_succeed (findings_platform lint_error_and_warning)
                  lint_only_params []"
    using C4_exit_code [of "findings_platform lint_error_and_warning" lint_only_params "[]"]
      dir [of lint_error_and_warning] build [of lint_error_and_warning]
    by (simp add: failing_lint_run)
  have gone: "chdir no_directory_platform (p_projectDir all_enabled_params) [] =
                (Inl (new_Error ''ENOENT''), [])"
    by (simp add: no_directory_platform_def base_platform_def)
  have no_dir: "runStep no_directory_platform all_enabled_params [] =
                  (\<lparr>exit_code = - 1, summary = None\<rparr>, [])"
    using C4_exit_code [of no_directory_platform all_enabled_params "[]"] gone by simp
  from good bad no_dir show ?thesis
    by (simp add: warning_run failing_lint_run)
qed

text \<open>
  C4 as stated fails: with every checker disabled, a failing user build script makes the
  process exit with code 1.
\<close>

theorem C4_counterexample:
  "exit_code (fst (runStep (findings_platform ''build failed'') script_only_params [])) = 1
   \<and> \<not> is_true (p_enableESLintCheck script_only_params)
   \<and> \<not> is_true (p_enableTypeScriptCheck script_only_params)
   \<and> \<not> is_true (p_enableTypeScriptCoverageReport script_only_params)"
  by code_simp

text \<open>
  C6. In a run that reaches the checkers (\<open>process.chdir\<close> and the user build script
  succeeded), the summary has exactly one line per checker, in the order ESLint,
  TypeScript, coverage: the disabled line for a checker that is switched off, and
  otherwise the line of the outcome of its call. A call that throws gives the line
  \<open>name: execution error (message)\<close> with the message of the exception, and sets
  \<open>hasErrors\<close>. Each enabled checker is called in the world its predecessors left,
  whatever they returned or threw.
\<close>

theorem C6_summary:
  assumes "chdir pf (p_projectDir params) w = (Inr u, w1)"
    and "runUserScript pf (resolve_projectDir params) (p_userScript params) w1 = (Inr u2, w2)"
    and "o1 = performESLintCheck pf (eslintConfig params) w2"
    and "w3 = (if is_true (p_enableESLintCheck params) then snd o1 else w2)"
    and "files = (if is_true (p_enableESLintCheck params) then files_after_eslint (fst o1)
                  else [])"
    and "o2 = performTypeScriptCheck pf (resolve_projectDir params) files
                (is_true (p_fullTypeScriptCheckMode params)) (resolve_checkDirectories params)
                (resolve_sourceBranch params) (resolve_targetBranch params) w3"
    and "w4 = (if is_true (p_enableTypeScriptCheck params) then snd o2 else w3)"
    and "o3 = performTypeScriptCoverageCheck pf (coverageConfig params) w4"
    and "w5 = (if is_true (p_enableTypeScriptCoverageReport params) then snd o3 else w4)"
  shows "\<exists>st. runStep pf params w =
                 (\<lparr>exit_code = (if hasErrors st then 1 else 0), summary = Some st\<rparr>, w5)
           \<and> checkResults st =
               [if is_true (p_enableESLintCheck params) then eslint_entry (fst o1)
                else disabled_line ''ESLint'',
                if is_true (p_enableTypeScriptCheck params) then typescript_entry (fst o2)
                else disabled_line ''TypeScript'',
                if is_true (p_enableTypeScriptCoverageReport params) then coverage_entry (fst o3)
                else disabled_line coverage_name]
           \<and> hasErrors st =
               ((is_true (p_enableESLintCheck params) \<and> \<not> eslint_succeeds (fst o1))
                \<or> (is_true (p_enableTypeScriptCheck params) \<and> \<not> typescript_succeeds (fst o2))
                \<or> (is_true (p_enableTypeScriptCoverageReport params)
                    \<and> \<not> coverage_succeeds (fst o3)))
           \<and> (\<forall>e. fst o1 = Inl e \<longrightarrow>
                  eslint_entry (fst o1) =
                    ''ESLint: '' @ zh_exec_error @ '' ('' @ message e @ '')''
                  \<and> \<not> eslint_succeeds (fst o1))
           \<and> (\<forall>e. fst o2 = Inl e \<longrightarrow>
                  typescript_entry (fst o2) =
                    ''TypeScript: '' @ zh_exec_error @ '' ('' @ message e @ '')''
                  \<and> \<not> typescript_succeeds (fst o2))
           \<and> (\<forall>e. fst o3 = Inl e \<longrightarrow>
                  coverage_entry (fst o3) =
                    coverage_name @ '': '' @ zh_exec_error @ '' ('' @ message e @ '')''
                  \<and> \<not> coverage_succeeds (fst o3))"
proof -
  obtain st1 v3 where s1: "eslint_step pf params initial_state w2 = (st1, v3)"
    by (cases "eslint_step pf params initial_state w2")
  obtain st2 v4 where s2: "typescript_step pf params st1 v3 = (st2, v4)"
    by (cases "typescript_step pf params st1 v3")
  obtain st3 v5 where s3: "coverage_step pf params st2 v4 = (st3, v5)"
    by (cases "coverage_step pf params st2 v4")
  have v3: "v3 = w3"
    using eslint_step_world [of pf params initial_state w2] s1 assms(3,4) by simp
  have f1: "checkedFiles st1 = files"
    using eslint_step_files [of pf params w2] s1 assms(3,5) by simp
  have e1: "hasErrors st1 =
              (is_true (p_enableESLintCheck params) \<and> \<not> eslint_succeeds (fst o1))"
    using eslint_step_errors [of pf params initial_state w2] s1 assms(3)
    by (simp add: initial_state_def)
  have r1: "checkResults st1 =
              [if is_true (p_enableESLintCheck params) then eslint_entry (fst o1)
               else disabled_line ''ESLint'']"
    using eslint_step_results [of pf params initial_state w2] s1 assms(3)
    by (simp add: initial_state_def)
  have v4: "v4 = w4"
    using typescript_step_world [of pf params st1 v3] s2 v3 f1 assms(6,7) by simp
  have e2: "hasErrors st2 =
              (hasErrors st1 \<or> (is_true (p_enableTypeScriptCheck params)
                 \<and> \<not> typescript_succeeds (fst o2)))"
    using typescript_step_errors [of pf params st1 v3] s2 v3 f1 assms(6) by simp
  have r2: "checkResults st2 =
              checkResults st1 @
                [if is_true (p_enableTypeScriptCheck params) then typescript_entry (fst o2)
                 else disabled_line ''TypeScript'']"
    using typescript_step_results [of pf params st1 v3] s2 v3 f1 assms(6) by simp
  have v5: "v5 = w5"
    using coverage_step_world [of pf params st2 v4] s3 v4 assms(8,9) by simp
  have e3: "hasErrors st3 =
              (hasErrors st2 \<or> (is_true (p_enableTypeScriptCoverageReport params)
                 \<and> \<not> coverage_succeeds (fst o3)))"
    using coverage_step_errors [of pf params st2 v4] s3 v4 assms(8) by simp
  have r3: "checkResults st3 =
              checkResults st2 @
                [if is_true (p_enableTypeScriptCoverageReport params)
                 then coverage_entry (fst o3) else disabled_line coverage_name]"
    using coverage_step_results [of pf params st2 v4] s3 v4 assms(8) by simp
  have run: "runStep pf params w =
               (\<lparr>exit_code = (if hasErrors st3 then 1 else 0), summary = Some st3\<rparr>, w5)"
    using runStep_blocks [OF assms(1) assms(2) s1 s2 s3] v5 by simp
  have lines: "checkResults st3 =
               [if is_true (p_enableESLintCheck params) then eslint_entry (fst o1)
                else disabled_line ''ESLint'',
                if is_true (p_enableTypeScriptCheck params) then typescript_entry (fst o2)
                else disabled_line ''TypeScript'',
                if is_true (p_enableTypeScriptCoverageReport params) then coverage_entry (fst o3)
                else disabled_line coverage_name]"
    using r1 r2 r3 by simp
  have errs: "hasErrors st3 =
               ((is_true (p_enableESLintCheck params) \<and> \<not> eslint_succeeds (fst o1))
                \<or> (is_true (p_enableTypeScriptCheck params) \<and> \<not> typescript_succeeds (fst o2))
                \<or> (is_true (p_enableTypeScriptCoverageReport params)
                    \<and> \<not> coverage_succeeds (fst o3)))"
    using e1 e2 e3 by auto
  have t1: "\<forall>e. fst o1 = Inl e \<longrightarrow>
                  eslint_entry (fst o1) =
                    ''ESLint: '' @ zh_exec_error @ '' ('' @ message e @ '')''
                  \<and> \<not> eslint_succeeds (fst o1)"
    by (simp add: eslint_entry_def eslint_succeeds_def error_line_def)
  have t2: "\<forall>e. fst o2 = Inl e \<longrightarrow>
                  typescript_entry (fst o2) =
                    ''TypeScript: '' @ zh_exec_error @ '' ('' @ message e @ '')''
                  \<and> \<not> typescript_succeeds (fst o2)"
    by (simp add: typescript_entry_def typescript_succeeds_def error_line_def)
  have t3: "\<forall>e. fst o3 = Inl e \<longrightarrow>
                  coverage_entry (fst o3) =
                    coverage_name @ '': '' @ zh_exec_error @ '' ('' @ message e @ '')''
                  \<and> \<not> coverage_succeeds (fst o3)"
    by (simp add: coverage_entry_def coverage_succeeds_def error_line_def)
  from run lines errs t1 t2 t3 show ?thesis by blast
qed

lemma throwing_compiler_run:
  "runStep throwing_compiler_platform odd_directory_params [] =
     (\<lparr>exit_code = 1,
       summary = Some \<lparr>checkedFiles = [], hasErrors = True, totalErrors = 0, totalWarnings = 0,
                       checkResults =
                         [disabled_line ''ESLint'',
                          ''TypeScript: '' @ zh_exec_error @ '' (Invalid regular expression)'',
                          coverage_name @ '': '' @ zh_passed]\<rparr>\<rparr>,
      [''git fetch'',
       ''npx tsc --noEmit --skipLibCheck '' @ [CHR 0x22] @ ''src/a.ts'' @ [CHR 0x22],
       ''pnpm'', ''pnpm''])"
  by code_simp

theorem C6_witness:
  "runStep throwing_compiler_platform odd_directory_params [] =
     (\<lparr>exit_code = 1,
       summary = Some \<lparr>checkedFiles = [], hasErrors = True, totalErrors = 0, totalWarnings = 0,
                       checkResults =
                         [disabled_line ''ESLint'',
                          ''TypeScript: '' @ zh_exec_error @ '' (Invalid regular expression)'',
                          coverage_name @ '': '' @ zh_passed]\<rparr>\<rparr>,
      [''git fetch'',
       ''npx tsc --noEmit --skipLibCheck '' @ [CHR 0x22] @ ''src/a.ts'' @ [CHR 0x22],
       ''pnpm'', ''pnpm''])
   \<and> fst (performTypeScriptCheck throwing_compiler_platform ''/ws/app(1'' [] False [''src''] []
            ''master'' []) = Inl (new_Error ''Invalid regular expression'')"
proof -
  have h1: "chdir throwing_compiler_platform (p_projectDir odd_directory_params) []
            = (Inr (), [])"
    by code_simp
  have h2: "runUserScript throwing_compiler_platform
              (resolve_projectDir odd_directory_params)
              (p_userScript odd_directory_params) [] = (Inr (), [])"
    by code_simp
  have thrown: "fst (performTypeScriptCheck throwing_compiler_platform ''/ws/app(1'' [] False
                       [''src''] [] ''master'' []) = Inl (new_Error ''Invalid regular expression'')"
    by code_simp
  from C6_summary [OF h1 h2 refl refl refl refl refl refl refl] thrown
  show ?thesis by (simp add: throwing_compiler_run)
qed

text \<open>
  C7, as amended. When \<open>tsconfig.json\<close> is missing from the project directory, the
  TypeScript type check runs nothing and returns the successful outcome with zero
  counts, whereas the enabled coverage check throws \<open>tsconfig.json not found\<close>, which
  the orchestrator records as the errored coverage line with \<open>hasErrors\<close> set.
\<close>

theorem C7_missing_tsconfig:
  "(\<not> existsSync pf (path_join pf (tc_projectDir tconfig) ''tsconfig.json'') w \<longrightarrow>
      runTypeScriptCheck pf tconfig w =
        (Inr \<lparr>tr_success = True, tr_errorCount = 0, tr_warningCount = 0,
              tr_output = out_no_tsconfig, tr_checkedFiles = 0\<rparr>, w))
   \<and> (cc_enableCheck cconfig
       \<and> \<not> existsSync pf (path_join pf (cc_projectDir cconfig) ''tsconfig.json'') w \<longrightarrow>
      performTypeScriptCoverageCheck pf cconfig w = (Inl (new_Error err_cov_no_tsconfig), w))
   \<and> (is_true (p_enableTypeScriptCoverageReport params)
       \<and> \<not> existsSync pf (path_join pf (resolve_projectDir params) ''tsconfig.json'') w \<longrightarrow>
      coverage_step pf params st w =
        (st\<lparr>hasErrors := True,
            checkResults := checkResults st @
              [error_line coverage_name (new_Error err_cov_no_tsconfig)]\<rparr>, w))"
  by (simp add: runTypeScriptCheck_def performTypeScriptCoverageCheck_def coverage_step_def
      coverageConfig_def Let_def)

theorem C7_witness:
  "runTypeScriptCheck base_platform head_ts_config [] =
     (Inr \<lparr>tr_success = True, tr_errorCount = 0, tr_warningCount = 0,
           tr_output = out_no_tsconfig, tr_checkedFiles = 0\<rparr>, [])
   \<and> performTypeScriptCoverageCheck base_platform (coverageConfig types_and_coverage_params) []
       = (Inl (new_Error err_cov_no_tsconfig), [])
   \<and> coverage_step base_platform types_and_coverage_params initial_state [] =
       (initial_state\<lparr>hasErrors := True,
          checkResults := checkResults initial_state @
            [error_line coverage_name (new_Error err_cov_no_tsconfig)]\<rparr>, [])"
proof -
  have a: "\<not> existsSync base_platform
               (path_join base_platform (tc_projectDir head_ts_config) ''tsconfig.json'') []"
    by (simp add: base_platform_def)
  have b: "cc_enableCheck (coverageConfig types_and_coverage_params)
           \<and> \<not> existsSync base_platform
                 (path_join base_platform
                    (cc_projectDir (coverageConfig types_and_coverage_params))
                    ''tsconfig.json'') []"
    by (simp add: base_platform_def coverageConfig_def types_and_coverage_params_def
        no_params_def is_true_def)
  have c: "is_true (p_enableTypeScriptCoverageReport types_and_coverage_params)
           \<and> \<not> existsSync base_platform
                 (path_join base_platform (resolve_projectDir types_and_coverage_params)
                    ''tsconfig.json'') []"
    by (simp add: base_platform_def types_and_coverage_params_def no_params_def is_true_def)
  from C7_missing_tsconfig [of base_platform head_ts_config "[]"
      "coverageConfig types_and_coverage_params" types_and_coverage_params initial_state]
    a b c
  show ?thesis by blast
qed

text \<open>
  C7 as stated fails for the coverage check: without \<open>tsconfig.json\<close> the enabled
  coverage check throws, and the run (TypeScript check and coverage enabled) exits with
  code 1, its coverage line being the errored one.
\<close>

theorem C7_counterexample:
  "runStep base_platform types_and_coverage_params [] =
     (\<lparr>exit_code = 1,
       summary = Some \<lparr>checkedFiles = [], hasErrors = True, totalErrors = 0, totalWarnings = 0,
                       checkResults =
                         [disabled_line ''ESLint'',
                          ''TypeScript: '' @ zh_passed @ '' ('' @ zh_no_files_to_check @ '')'',
                          error_line coverage_name (new_Error err_cov_no_tsconfig)]\<rparr>\<rparr>,
      [])"
  by code_simp

text \<open>
  C8, as amended. When the project directory is not inside a git working tree
  (\<open>git rev-parse --git-dir\<close> fails) and the ESLint checker is enabled, the ESLint
  checker throws; the run records the errored ESLint line, goes on with the TypeScript
  block and the coverage block, prints the summary of three lines and exits with code 1.
  (With the ESLint checker disabled nothing asks whether the directory is a git
  working tree.)
\<close>

theorem C8_not_a_git_repository:
  assumes "chdir pf (p_projectDir params) w = (Inr u, w1)"
    and "runUserScript pf (resolve_projectDir params) (p_userScript params) w1 = (Inr u2, w2)"
    and "is_true (p_enableESLintCheck params)"
    and "execa pf \<lparr>ex_file = ''git'', ex_args = [''rev-parse'', ''--git-dir''],
                   ex_cwd = resolve_projectDir params, ex_shell = False, ex_all = False\<rparr> w2
         = (Inl error, w3)"
    and "typescript_step pf params
           (initial_state\<lparr>hasErrors := True,
              checkResults := [error_line ''ESLint'' (new_Error err_not_git_repo)]\<rparr>) w3
         = (st2, w4)"
    and "coverage_step pf params st2 w4 = (st3, w5)"
  shows "runStep pf params w = (\<lparr>exit_code = 1, summary = Some st3\<rparr>, w5)
       \<and> hasErrors st3
       \<and> length (checkResults st3) = 3
       \<and> hd (checkResults st3) = error_line ''ESLint'' (new_Error err_not_git_repo)"
proof -
  have thrown: "performESLintCheck pf (eslintConfig params) w2 =
                  (Inl (new_Error err_not_git_repo), w3)"
    using assms(3,4) by (simp add: performESLintCheck_def eslintConfig_def)
  have s1: "eslint_step pf params initial_state w2 =
              (initial_state\<lparr>hasErrors := True,
                 checkResults := [error_line ''ESLint'' (new_Error err_not_git_repo)]\<rparr>, w3)"
    using assms(3) thrown by (simp add: eslint_step_def initial_state_def)
  let ?st1 = "initial_state\<lparr>hasErrors := True,
                 checkResults := [error_line ''ESLint'' (new_Error err_not_git_repo)]\<rparr>"
  have e2: "hasErrors st2"
    using typescript_step_errors [of pf params ?st1 w3] assms(5) by simp
  have r2: "checkResults st2 = error_line ''ESLint'' (new_Error err_not_git_repo) #
              [if is_true (p_enableTypeScriptCheck params)
               then typescript_entry (fst (performTypeScriptCheck pf (resolve_projectDir params)
                      [] (is_true (p_fullTypeScriptCheckMode params))
                      (resolve_checkDirectories params) (resolve_sourceBranch params)
                      (resolve_targetBranch params) w3))
               else disabled_line ''TypeScript'']"
    using typescript_step_results [of pf params ?st1 w3] assms(5)
    by (simp add: initial_state_def)
  have e3: "hasErrors st3"
    using coverage_step_errors [of pf params st2 w4] assms(6) e2 by simp
  have r3: "length (checkResults st3) = 3
            \<and> hd (checkResults st3) = error_line ''ESLint'' (new_Error err_not_git_repo)"
    using coverage_step_results [of pf params st2 w4] assms(6) r2 by simp
  have "runStep pf params w =
          (\<lparr>exit_code = (if hasErrors st3 then 1 else 0), summary = Some st3\<rparr>, w5)"
    using runStep_blocks [OF assms(1) assms(2) s1 assms(5) assms(6)] .
  with e3 r3 show ?thesis by simp
qed

theorem C8_witness:
  "runStep not_git_platform all_enabled_params [] =
     (\<lparr>exit_code = 1,
       summary = Some \<lparr>checkedFiles = [], hasErrors = True, totalErrors = 0, totalWarnings = 0,
                       checkResults =
                         [error_line ''ESLint'' (new_Error err_not_git_repo),
                          ''TypeScript: '' @ zh_passed @ '' ('' @ zh_no_files_to_check @ '')'',
                          error_line coverage_name
                            (new_Error (err_cov_exec_failed @ err_no_package_json))]\<rparr>\<rparr>,
      [''git'', ''git fetch'', ''npm''])"
proof -
  have h1: "chdir not_git_platform (p_projectDir all_enabled_params) [] = (Inr (), [])"
    by code_simp
  have h2: "runUserScript not_git_platform (resolve_projectDir all_enabled_params)
              (p_userScript all_enabled_params) [] = (Inr (), [])"
    by code_simp
  have h3: "is_true (p_enableESLintCheck all_enabled_params)"
    by code_simp
  have h4: "execa not_git_platform
              \<lparr>ex_file = ''git'', ex_args = [''rev-parse'', ''--git-dir''],
               ex_cwd = resolve_projectDir all_enabled_params, ex_shell = False,
               ex_all = False\<rparr> []
            = (Inl \<lparr>message = ''Command failed'', err_stdout = Some [], err_all = None,
                    exitCode = Some 128\<rparr>, [''git''])"
    by code_simp
  have h5: "typescript_step not_git_platform all_enabled_params
              (initial_state\<lparr>hasErrors := True,
                 checkResults := [error_line ''ESLint'' (new_Error err_not_git_repo)]\<rparr>)
              [''git'']
            = (\<lparr>checkedFiles = [], hasErrors = True, totalErrors = 0, totalWarnings = 0,
                checkResults =
                  [error_line ''ESLint'' (new_Error err_not_git_repo),
                   ''TypeScript: '' @ zh_passed @ '' ('' @ zh_no_files_to_check @ '')'']\<rparr>,
               [''git'', ''git fetch''])"
    by code_simp
  have h6: "coverage_step not_git_platform all_enabled_params
              \<lparr>checkedFiles = [], hasErrors = True, totalErrors = 0, totalWarnings = 0,
                checkResults =
                  [error_line ''ESLint'' (new_Error err_not_git_repo),
                   ''TypeScript: '' @ zh_passed @ '' ('' @ zh_no_files_to_check @ '')'']\<rparr>
              [''git'', ''git fetch'']
            = (\<lparr>checkedFiles = [], hasErrors = True, totalErrors = 0, totalWarnings = 0,
                checkResults =
                  [error_line ''ESLint'' (new_Error err_not_git_repo),
                   ''TypeScript: '' @ zh_passed @ '' ('' @ zh_no_files_to_check @ '')'',
                   error_line coverage_name
                     (new_Error (err_cov_exec_failed @ err_no_package_json))]\<rparr>,
               [''git'', ''git fetch'', ''npm''])"
    by code_simp
  from C8_not_a_git_repository [OF h1 h2 h3 h4 h5 h6]
  show ?thesis by simp
qed

text \<open>
  C8 as stated fails. Outside a git working tree, with ESLint and a full TypeScript check
  enabled, the compiler is still run after \<open>git\<close> failed and the TypeScript line reports
  its outcome; and with only the TypeScript check enabled the run exits with code 0.
\<close>

theorem C8_counterexample:
  "runStep not_git_platform lint_and_types_params [] =
     (\<lparr>exit_code = 1,
       summary = Some \<lparr>checkedFiles = [], hasErrors = True, totalErrors = 0, totalWarnings = 0,
                       checkResults =
                         [error_line ''ESLint'' (new_Error err_not_git_repo),
                          ''TypeScript: '' @ zh_passed @ '' ('' @ zh_full_check @ '', 0'' @
                            zh_n_warnings @ '')'',
                          disabled_line coverage_name]\<rparr>\<rparr>,
      [''git'', ''npx tsc --noEmit --skipLibCheck --project tsconfig.json''])
   \<and> runStep not_git_platform types_only_params [] =
     (\<lparr>exit_code = 0,
       summary = Some \<lparr>checkedFiles = [], hasErrors = False, totalErrors = 0,
                       totalWarnings = 0,
                       checkResults =
                         [disabled_line ''ESLint'',
                          ''TypeScript: '' @ zh_passed @ '' ('' @ zh_full_check @ '', 0'' @
                            zh_n_warnings @ '')'',
                          disabled_line coverage_name]\<rparr>\<rparr>,
      [''npx tsc --noEmit --skipLibCheck --project tsconfig.json''])"
  by code_simp

end
